theory Spec2Isabelle
  imports Main "HOL-Library.Word"
begin

unbundle bit_operations_syntax

section \<open>Bytes, strings and exceptions\<close>

text \<open>
  A Python \<open>bytes\<close> value is a list of 8-bit words. A Python \<open>str\<close> is represented by
  its UTF-8 encoding, so \<open>s.encode('utf-8')\<close> is the identity and \<open>b.decode('utf-8')\<close>
  is a validity check. Python's unbounded integers are \<open>int\<close>. A literal of the source
  is written \<open>ascii ''...''\<close>; the backslash has no place in an Isabelle string literal,
  hence \<open>esc ''00''\<close> for the four characters backslash, x, 0, 0.
\<close>

type_synonym byte = "8 word"
type_synonym bytes = "byte list"
type_synonym str = "byte list"

definition ascii :: "string \<Rightarrow> bytes" where
  "ascii s = map (\<lambda>c. of_nat (of_char c)) s"

definition esc :: "string \<Rightarrow> bytes" where
  "esc h = 0x5C # ascii (CHR ''x'' # h)"

fun show_nat :: "nat \<Rightarrow> str" where
  "show_nat n = (if n < 10 then [of_nat (48 + n)]
                 else show_nat (n div 10) @ [of_nat (48 + n mod 10)])"

declare show_nat.simps [simp del]

definition show_int :: "int \<Rightarrow> str" where
  "show_int i = (if i < 0 then 0x2D # show_nat (nat (- i)) else show_nat (nat i))"

text \<open>
  The exception classes of \<open>common/exceptions.py\<close> that the protocol code raises, and the
  built-in exceptions of \<open>struct\<close>, \<open>bytes.decode\<close>, \<open>bytes([n])\<close> and \<open>BytesIO.read\<close>. Each carries its
  message. The message texts of the built-in exceptions are CPython's business and are
  only approximated here; nothing below depends on them.
\<close>

datatype error =
    ProtocolError str
  | AuthenticationError str
  | StructError str
  | UnicodeDecodeError str
  | ValueError str
  | OverflowError str

text \<open>\<open>HchDBError.__str__\<close> with empty details: \<open>[error_code] message\<close>.\<close>

fun str_of_error :: "error \<Rightarrow> str" where
  "str_of_error (ProtocolError m) = ascii ''[1001] '' @ m"
| "str_of_error (AuthenticationError m) = ascii ''[1003] '' @ m"
| "str_of_error (StructError m) = m"
| "str_of_error (UnicodeDecodeError m) = m"
| "str_of_error (ValueError m) = m"
| "str_of_error (OverflowError m) = m"

text \<open>A raised exception ends the computation: sequencing of fallible steps.\<close>

definition bind_err :: "error + 'a \<Rightarrow> ('a \<Rightarrow> error + 'b) \<Rightarrow> error + 'b" where
  "bind_err m f = (case m of Inl e \<Rightarrow> Inl e | Inr x \<Rightarrow> f x)"

subsection \<open>\<open>struct.pack\<close> and \<open>struct.unpack\<close>, little-endian unsigned\<close>

fun le_bytes :: "nat \<Rightarrow> int \<Rightarrow> bytes" where
  "le_bytes 0 v = []"
| "le_bytes (Suc n) v = word_of_int v # le_bytes n (v div 256)"

fun le_int :: "bytes \<Rightarrow> int" where
  "le_int [] = 0"
| "le_int (b # bs) = uint b + 256 * le_int bs"

text \<open>\<open>struct.pack\<close> of one unsigned field of \<open>n\<close> bytes raises \<open>struct.error\<close> out of range.\<close>

definition pack_uint :: "nat \<Rightarrow> int \<Rightarrow> error + bytes" where
  "pack_uint n v =
     (if 0 \<le> v \<and> v < 256 ^ n then Inr (le_bytes n v)
      else Inl (StructError (ascii ''argument out of range'')))"

text \<open>\<open>struct.unpack\<close> of one unsigned field wants a buffer of exactly \<open>n\<close> bytes.\<close>

definition unpack_uint :: "nat \<Rightarrow> bytes \<Rightarrow> error + int" where
  "unpack_uint n bs =
     (if length bs = n then Inr (le_int bs)
      else Inl (StructError (ascii ''unpack requires a buffer of '' @ show_nat n @ ascii '' bytes'')))"

section \<open>Length-encoded integers (\<open>protocol/packet.py\<close>)\<close>

text \<open>
  \<open>PacketBuilder._encode_length_encoded_int\<close>. \<open>struct.pack('<BI', 0xfd, value)[:4]\<close> is
  the tag and the three low bytes of the 32-bit field.
\<close>

definition encode_length_encoded_int :: "int \<Rightarrow> error + bytes" where
  "encode_length_encoded_int v =
     (if v < 251 then pack_uint 1 v
      else if v < 65536 then
        (case pack_uint 2 v of Inl e \<Rightarrow> Inl e | Inr bs \<Rightarrow> Inr (0xFC # bs))
      else if v < 16777216 then
        (case pack_uint 4 v of Inl e \<Rightarrow> Inl e | Inr bs \<Rightarrow> Inr (take 4 (0xFD # bs)))
      else
        (case pack_uint 8 v of Inl e \<Rightarrow> Inl e | Inr bs \<Rightarrow> Inr (0xFE # bs)))"

text \<open>
  \<open>PacketParser._decode_length_encoded_int\<close> on a \<open>BytesIO\<close> stream: the stream is the
  list of bytes not yet read, and the function returns the value with the rest of the
  stream. \<open>stream.read(n)\<close> returns at most \<open>n\<close> bytes.
\<close>

definition decode_length_encoded_int :: "bytes \<Rightarrow> error + (int \<times> bytes)" where
  "decode_length_encoded_int stream =
     (case stream of
        [] \<Rightarrow> Inr (0, [])
      | first_byte # rest \<Rightarrow>
          let v = uint first_byte in
          if v < 251 then Inr (v, rest)
          else if v = 0xFC then
            (case unpack_uint 2 (take 2 rest) of Inl e \<Rightarrow> Inl e | Inr r \<Rightarrow> Inr (r, drop 2 rest))
          else if v = 0xFD then
            (case unpack_uint 4 (take 3 rest @ [0]) of Inl e \<Rightarrow> Inl e | Inr r \<Rightarrow> Inr (r, drop 3 rest))
          else if v = 0xFE then
            (case unpack_uint 8 (take 8 rest) of Inl e \<Rightarrow> Inl e | Inr r \<Rightarrow> Inr (r, drop 8 rest))
          else Inl (ProtocolError (ascii ''Invalid length-encoded integer: '' @ show_int v)))"

subsection \<open>\<open>bytes.decode('utf-8')\<close>\<close>

text \<open>
  The strict UTF-8 decoder accepts exactly the well-formed sequences (no overlong forms,
  no surrogates, nothing above U+10FFFF) and raises \<open>UnicodeDecodeError\<close> otherwise.
\<close>

definition cont :: "byte \<Rightarrow> bool" where
  "cont b \<longleftrightarrow> 0x80 \<le> b \<and> b \<le> 0xBF"

fun valid_utf8 :: "bytes \<Rightarrow> bool" where
  "valid_utf8 [] = True"
| "valid_utf8 (b # bs) =
     (if b \<le> 0x7F then valid_utf8 bs
      else if 0xC2 \<le> b \<and> b \<le> 0xDF then
        (case bs of c1 # r \<Rightarrow> cont c1 \<and> valid_utf8 r | _ \<Rightarrow> False)
      else if b = 0xE0 then
        (case bs of c1 # c2 # r \<Rightarrow> 0xA0 \<le> c1 \<and> c1 \<le> 0xBF \<and> cont c2 \<and> valid_utf8 r | _ \<Rightarrow> False)
      else if (0xE1 \<le> b \<and> b \<le> 0xEC) \<or> b = 0xEE \<or> b = 0xEF then
        (case bs of c1 # c2 # r \<Rightarrow> cont c1 \<and> cont c2 \<and> valid_utf8 r | _ \<Rightarrow> False)
      else if b = 0xED then
        (case bs of c1 # c2 # r \<Rightarrow> 0x80 \<le> c1 \<and> c1 \<le> 0x9F \<and> cont c2 \<and> valid_utf8 r | _ \<Rightarrow> False)
      else if b = 0xF0 then
        (case bs of c1 # c2 # c3 # r \<Rightarrow>
           0x90 \<le> c1 \<and> c1 \<le> 0xBF \<and> cont c2 \<and> cont c3 \<and> valid_utf8 r | _ \<Rightarrow> False)
      else if 0xF1 \<le> b \<and> b \<le> 0xF3 then
        (case bs of c1 # c2 # c3 # r \<Rightarrow> cont c1 \<and> cont c2 \<and> cont c3 \<and> valid_utf8 r | _ \<Rightarrow> False)
      else if b = 0xF4 then
        (case bs of c1 # c2 # c3 # r \<Rightarrow>
           0x80 \<le> c1 \<and> c1 \<le> 0x8F \<and> cont c2 \<and> cont c3 \<and> valid_utf8 r | _ \<Rightarrow> False)
      else False)"

definition decode_utf8 :: "bytes \<Rightarrow> error + str" where
  "decode_utf8 bs =
     (if valid_utf8 bs then Inr bs
      else Inl (UnicodeDecodeError (ascii ''utf-8 codec cannot decode bytes'')))"

section \<open>Packets and the packet builder (\<open>protocol/packet.py\<close>)\<close>

record Packet =
  payload :: bytes
  sequence_id :: int

text \<open>\<open>Packet.to_bytes\<close>: three length bytes, the sequence byte, the payload.\<close>

definition to_bytes :: "Packet \<Rightarrow> error + bytes" where
  "to_bytes p =
     (if length (payload p) > 0xffffff then
        Inl (ProtocolError (ascii ''Packet too large: '' @ show_nat (length (payload p)) @ ascii '' bytes''))
      else
        (case pack_uint 4 (int (length (payload p))) of Inl e \<Rightarrow> Inl e | Inr l \<Rightarrow>
         (case pack_uint 1 (sequence_id p) of Inl e \<Rightarrow> Inl e | Inr sq \<Rightarrow>
            Inr (take 3 l @ sq @ payload p))))"

text \<open>
  \<open>Packet.from_bytes\<close>: the length is read from \<^verbatim>\<open>data[:3] + b'\x00'\<close>, three bytes and
  a zero byte.
\<close>

definition from_bytes :: "bytes \<Rightarrow> error + Packet" where
  "from_bytes data =
     (if length data < 4 then Inl (ProtocolError (ascii ''Incomplete packet header''))
      else
        bind_err (unpack_uint 4 (take 3 data @ [0])) (\<lambda>n.
        bind_err (unpack_uint 1 (take 1 (drop 3 data))) (\<lambda>seq.
          if int (length data) < 4 + n then
            Inl (ProtocolError (ascii ''Incomplete packet: expected '' @ show_int (4 + n)
                   @ ascii '', got '' @ show_nat (length data)))
          else Inr \<lparr>payload = take (nat n) (drop 4 data), sequence_id = seq\<rparr>)))"

text \<open>
  \<open>PacketBuilder\<close> holds the outgoing sequence counter, \<open>self.sequence_id\<close> in the
  source (the field is named \<open>counter\<close> here, \<open>sequence_id\<close> being the packet's field).
\<close>

record PacketBuilder =
  counter :: int

definition new_PacketBuilder :: PacketBuilder where
  "new_PacketBuilder = \<lparr>counter = 0\<rparr>"

definition next_sequence_id :: "PacketBuilder \<Rightarrow> int \<times> PacketBuilder" where
  "next_sequence_id b = (counter b, b\<lparr>counter := (counter b + 1) mod 256\<rparr>)"

definition reset_sequence :: "PacketBuilder \<Rightarrow> PacketBuilder" where
  "reset_sequence b = b\<lparr>counter := 0\<rparr>"

text \<open>The two capability halves, as the source writes them.\<close>

definition capabilities_low :: int where
  "capabilities_low =
     0x0001 OR 0x0002 OR 0x0004 OR 0x0008 OR 0x0010 OR 0x0020 OR 0x0040 OR 0x0080 OR
     0x0100 OR 0x0200 OR 0x0400 OR 0x0800 OR 0x1000 OR 0x2000 OR 0x4000 OR 0x8000"

definition capabilities_high :: int where
  "capabilities_high =
     0x0001 OR 0x0002 OR 0x0004 OR 0x0008 OR 0x0010 OR 0x0020 OR 0x0040 OR 0x0080 OR 0x0100"

text \<open>
  \<open>PacketBuilder.build_handshake\<close>. An argument left out takes its default
  (\<open>None\<close> here). Only the connection id is a value the caller chooses that
  \<open>struct.pack\<close> can refuse; the other packed fields are constants in range.
\<close>

definition build_handshake ::
  "PacketBuilder \<Rightarrow> str option \<Rightarrow> int option \<Rightarrow> str option \<Rightarrow> error + (Packet \<times> PacketBuilder)" where
  "build_handshake b server_version connection_id auth_plugin =
     (let version = (case server_version of None \<Rightarrow> ascii ''8.0.0-hchdb'' | Some v \<Rightarrow> v);
          cid = (case connection_id of None \<Rightarrow> 1 | Some c \<Rightarrow> c);
          plugin = (case auth_plugin of None \<Rightarrow> ascii ''mysql_native_password'' | Some p \<Rightarrow> p)
      in case pack_uint 4 cid of
           Inl e \<Rightarrow> Inl e
         | Inr cid_bytes \<Rightarrow>
             let auth_seed_1 = ascii ''12345678'';
                 auth_plugin_data_len = 21;
                 auth_seed_2 = ascii ''901234567890'';
                 body = le_bytes 1 10 @ version @ [0] @ cid_bytes @ auth_seed_1 @ [0]
                        @ le_bytes 2 capabilities_low @ le_bytes 1 33 @ le_bytes 2 2
                        @ le_bytes 2 capabilities_high @ le_bytes 1 auth_plugin_data_len
                        @ replicate 10 0 @ auth_seed_2 @ [0] @ plugin @ [0];
                 (seq, b') = next_sequence_id b
             in Inr (\<lparr>payload = body, sequence_id = seq\<rparr>, b'))"

text \<open>\<open>PacketBuilder.build_ok\<close>, with every argument given.\<close>

definition build_ok ::
  "PacketBuilder \<Rightarrow> int \<Rightarrow> int \<Rightarrow> int \<Rightarrow> int \<Rightarrow> str \<Rightarrow> error + (Packet \<times> PacketBuilder)" where
  "build_ok b affected_rows last_insert_id status_flags warnings info =
     (case encode_length_encoded_int affected_rows of Inl e \<Rightarrow> Inl e | Inr ar \<Rightarrow>
      (case encode_length_encoded_int last_insert_id of Inl e \<Rightarrow> Inl e | Inr li \<Rightarrow>
       (case pack_uint 2 status_flags of Inl e \<Rightarrow> Inl e | Inr sf \<Rightarrow>
        (case pack_uint 2 warnings of Inl e \<Rightarrow> Inl e | Inr w \<Rightarrow>
           let (seq, b') = next_sequence_id b
           in Inr (\<lparr>payload = [0x00] @ ar @ li @ sf @ w @ info, sequence_id = seq\<rparr>, b')))))"

text \<open>
  \<open>PacketBuilder.build_error\<close>. Every caller passes an ASCII \<open>sql_state\<close>, so
  \<open>sql_state.encode('ascii')\<close> is the identity.
\<close>

definition build_error ::
  "PacketBuilder \<Rightarrow> int \<Rightarrow> str \<Rightarrow> str \<Rightarrow> error + (Packet \<times> PacketBuilder)" where
  "build_error b error_code error_message sql_state =
     (case pack_uint 2 error_code of Inl e \<Rightarrow> Inl e | Inr ec \<Rightarrow>
        let (seq, b') = next_sequence_id b
        in Inr (\<lparr>payload = [0xFF] @ ec @ ascii ''#'' @ sql_state @ error_message,
                 sequence_id = seq\<rparr>, b'))"

text \<open>\<open>PacketBuilder.build_eof\<close>.\<close>

definition build_eof :: "PacketBuilder \<Rightarrow> int \<Rightarrow> int \<Rightarrow> error + (Packet \<times> PacketBuilder)" where
  "build_eof b warnings status_flags =
     (case pack_uint 2 warnings of Inl e \<Rightarrow> Inl e | Inr w \<Rightarrow>
      (case pack_uint 2 status_flags of Inl e \<Rightarrow> Inl e | Inr sf \<Rightarrow>
         let (seq, b') = next_sequence_id b
         in Inr (\<lparr>payload = [0xFE] @ w @ sf, sequence_id = seq\<rparr>, b')))"

section \<open>The packet parser (\<open>protocol/packet.py\<close>)\<close>

text \<open>
  The loop that reads a null-terminated field,
  \<^verbatim>\<open>while True: byte = stream.read(1); if not byte or byte == b'\x00': break; value += byte\<close>,
  returns the value read and the rest of the stream. It stops at a zero byte, which it
  consumes, and at the end of the stream.
\<close>

fun read_nts :: "bytes \<Rightarrow> bytes \<times> bytes" where
  "read_nts [] = ([], [])"
| "read_nts (b # bs) =
     (if b = 0 then ([], bs) else (let (v, rest) = read_nts bs in (b # v, rest)))"

record HandshakeResponse =
  username :: str
  auth_data :: bytes
  database :: str
  auth_plugin :: str
  capabilities :: int
  max_packet_size :: int
  charset :: int

text \<open>
  The authentication data: length-encoded under \<open>CLIENT_PLUGIN_AUTH_LENENC_CLIENT_DATA\<close>.
  The size given to \<open>stream.read\<close> is converted to a signed 64-bit integer (CPython on
  a 64-bit platform), which raises \<open>OverflowError\<close> from \<open>2^63\<close> on.
\<close>

definition read_auth_data :: "int \<Rightarrow> bytes \<Rightarrow> error + (bytes \<times> bytes)" where
  "read_auth_data caps stream =
     (if caps AND 0x00200000 \<noteq> 0 then
        (case decode_length_encoded_int stream of
           Inl e \<Rightarrow> Inl e
         | Inr (auth_len, stream') \<Rightarrow>
             if auth_len > 0 then
               (if auth_len < 2 ^ 63 then
                  Inr (take (nat auth_len) stream', drop (nat auth_len) stream')
                else Inl (OverflowError (ascii ''cannot fit int into an index-sized integer'')))
             else Inr ([], stream'))
      else Inr (read_nts stream))"

text \<open>A null-terminated string that is present only under a capability flag.\<close>

definition read_optional_nts :: "int \<Rightarrow> int \<Rightarrow> bytes \<Rightarrow> error + (str \<times> bytes)" where
  "read_optional_nts caps flag stream =
     (if caps AND flag \<noteq> 0 then
        (let (raw, stream') = read_nts stream
         in case decode_utf8 raw of Inl e \<Rightarrow> Inl e | Inr s \<Rightarrow> Inr (s, stream'))
      else Inr ([], stream))"

text \<open>\<open>PacketParser.parse_handshake_response\<close>.\<close>

definition parse_handshake_response :: "Packet \<Rightarrow> error + HandshakeResponse" where
  "parse_handshake_response packet =
     (if length (payload packet) < 4 then
        Inl (ProtocolError (ascii ''Invalid handshake response packet''))
      else
        bind_err (unpack_uint 4 (take 4 (payload packet))) (\<lambda>caps.
        bind_err (unpack_uint 4 (take 4 (drop 4 (payload packet)))) (\<lambda>max_size.
        bind_err (unpack_uint 1 (take 1 (drop 8 (payload packet)))) (\<lambda>cs.
        (let (raw_name, s4) = read_nts (drop 23 (drop 9 (payload packet))) in
        bind_err (decode_utf8 raw_name) (\<lambda>name.
        bind_err (read_auth_data caps s4) (\<lambda>(auth, s5).
        bind_err (read_optional_nts caps 0x00000008 s5) (\<lambda>(db, s6).
        bind_err (read_optional_nts caps 0x00080000 s6) (\<lambda>(plugin, s7).
          Inr \<lparr>username = name, auth_data = auth, database = db, auth_plugin = plugin,
               capabilities = caps, max_packet_size = max_size, charset = cs\<rparr>)))))))))"

text \<open>\<open>PacketParser.parse_query\<close>.\<close>

definition parse_query :: "Packet \<Rightarrow> error + str" where
  "parse_query packet =
     (case payload packet of
        [] \<Rightarrow> Inl (ProtocolError (ascii ''Invalid query packet''))
      | command # body \<Rightarrow>
          if uint command \<noteq> 0x03 then
            Inl (ProtocolError (ascii ''Not a query packet: '' @ show_int (uint command)))
          else decode_utf8 body)"

section \<open>String operations of the fallback responder\<close>

text \<open>
  \<open>str.upper\<close> and \<open>str.strip\<close> are the interpreter's, with the Unicode tables behind
  them; they are parameters of the model. \<open>str.startswith\<close>, \<open>in\<close>, \<open>len\<close> and slicing
  are written out on the UTF-8 representation: a string of ASCII characters is a prefix
  or a part of the text exactly when its bytes are a prefix or a part of the bytes, and
  \<open>py_len\<close> and \<open>take_chars\<close> count code points, the bytes that are not continuation
  bytes.
\<close>

record Python =
  upper :: "str \<Rightarrow> str"
  strip :: "str \<Rightarrow> str"

definition startswith :: "str \<Rightarrow> str \<Rightarrow> bool" where
  "startswith s p \<longleftrightarrow> take (length p) s = p"

fun contains :: "str \<Rightarrow> str \<Rightarrow> bool" where
  "contains [] p = (p = [])"
| "contains (b # bs) p = (startswith (b # bs) p \<or> contains bs p)"

definition py_len :: "str \<Rightarrow> int" where
  "py_len s = int (length (filter (\<lambda>b. \<not> cont b) s))"

fun take_chars :: "nat \<Rightarrow> str \<Rightarrow> str" where
  "take_chars n [] = []"
| "take_chars n (b # bs) =
     (if cont b then b # take_chars n bs
      else (case n of 0 \<Rightarrow> [] | Suc m \<Rightarrow> b # take_chars m bs))"

text \<open>\<open>bytes([n])\<close> raises \<open>ValueError\<close> unless \<open>0 <= n < 256\<close>.\<close>

definition bytes_of_int :: "int \<Rightarrow> error + bytes" where
  "bytes_of_int n =
     (if 0 \<le> n \<and> n < 256 then Inr [word_of_int n]
      else Inl (ValueError (ascii ''bytes must be in range(0, 256)'')))"

section \<open>The protocol handler (\<open>protocol/mysql.py\<close>)\<close>

text \<open>
  The configuration values the handler reads: \<open>server.server_version\<close>,
  \<open>connection.pool.max_connections\<close> and \<open>authentication.users\<close>, a dictionary from user
  names to user entries; an entry may lack its \<open>password\<close> key.
\<close>

record Config =
  server_version :: str
  max_connections :: int
  users :: "str \<rightharpoonup> str option"

text \<open>
  The stream writer: the packets whose \<open>to_bytes()\<close> has been written to it, in order,
  and whether it has been closed. The transport itself is taken to accept every write.
\<close>

record Writer =
  peername :: "str \<times> int"
  sent :: "Packet list"
  closing :: bool

text \<open>
  The attributes of \<open>MySQLProtocolHandler\<close>. \<open>reads\<close> counts the calls of
  \<open>_read_packet\<close>. An installed query handler is a function of the statement that
  returns (its result is not looked at by \<open>_send_query_result\<close>) or raises.
\<close>

record Handler =
  handler_connection_id :: int
  packet_builder :: PacketBuilder
  authenticated :: bool
  handler_username :: str
  handler_database :: str
  client_capabilities :: int
  query_handler :: "(str \<Rightarrow> error option) option"
  writer :: Writer
  reads :: nat

definition new_Handler :: "Writer \<Rightarrow> int \<Rightarrow> Handler" where
  "new_Handler w cid =
     \<lparr>handler_connection_id = cid, packet_builder = new_PacketBuilder, authenticated = False,
      handler_username = [], handler_database = [], client_capabilities = 0,
      query_handler = None, writer = w, reads = 0\<rparr>"

text \<open>
  \<open>_read_packet\<close>. The reader is the list of the bytes that the client sends from now
  on until it closes its side of the connection; \<open>_read_packet\<close> returns the packet
  with the bytes that are left. \<open>readexactly\<close> raises \<open>IncompleteReadError\<close> when the
  client closes before the bytes asked for have come, and \<open>_read_packet\<close> then returns
  \<open>None\<close>. The length is read from \<^verbatim>\<open>header_data[:3] + b'\\x00'\<close>, where the literal
  is the four characters backslash, x, 0, 0: seven bytes in all.
\<close>

definition read_packet :: "bytes \<Rightarrow> Packet option \<times> bytes" where
  "read_packet stream =
     (if length stream < 4 then (None, [])
      else
        (let header_data = take 4 stream;
             length_bytes = take 3 header_data @ esc ''00'';
             n = nat (le_int length_bytes);
             seq = uint (header_data ! 3);
             rest = drop 4 stream
         in if n > 0 then
              (if length rest < n then (None, [])
               else (Some \<lparr>payload = take n rest, sequence_id = seq\<rparr>, drop n rest))
            else (Some \<lparr>payload = [], sequence_id = seq\<rparr>, rest)))"

text \<open>
  A method of the handler takes the handler and returns it updated, with the exception
  it raised, if any: what a method did before it raised stays done.
\<close>

type_synonym action = "Handler \<Rightarrow> error option \<times> Handler"

definition and_then :: "action \<Rightarrow> action \<Rightarrow> action" where
  "and_then f g h = (case f h of (Some e, h') \<Rightarrow> (Some e, h') | (None, h') \<Rightarrow> g h')"

text \<open>\<^verbatim>\<open>try: f  except Exception as e: g(e)\<close>\<close>

definition try_except :: "action \<Rightarrow> (error \<Rightarrow> action) \<Rightarrow> action" where
  "try_except f g h = (case f h of (Some e, h') \<Rightarrow> g e h' | (None, h') \<Rightarrow> (None, h'))"

definition raise :: "error \<Rightarrow> action" where
  "raise e h = (Some e, h)"

text \<open>\<open>_write_packet\<close>: any exception of \<open>to_bytes\<close> becomes a \<open>ProtocolError\<close>.\<close>

definition write_packet :: "Packet \<Rightarrow> action" where
  "write_packet p h =
     (case to_bytes p of
        Inl e \<Rightarrow> (Some (ProtocolError (ascii ''Failed to write packet: '' @ str_of_error e)), h)
      | Inr data \<Rightarrow> (None, h\<lparr>writer := (writer h)\<lparr>sent := sent (writer h) @ [p]\<rparr>\<rparr>))"

text \<open>A packet built by the builder, then written.\<close>

definition send_built :: "(PacketBuilder \<Rightarrow> error + (Packet \<times> PacketBuilder)) \<Rightarrow> action" where
  "send_built build h =
     (case build (packet_builder h) of
        Inl e \<Rightarrow> (Some e, h)
      | Inr (p, b') \<Rightarrow> write_packet p (h\<lparr>packet_builder := b'\<rparr>))"

text \<open>\<^verbatim>\<open>Packet(data, self.packet_builder.next_sequence_id())\<close>, then written.\<close>

definition send_raw :: "bytes \<Rightarrow> action" where
  "send_raw data h =
     (let (seq, b') = next_sequence_id (packet_builder h)
      in write_packet \<lparr>payload = data, sequence_id = seq\<rparr> (h\<lparr>packet_builder := b'\<rparr>))"

text \<open>\<open>build_ok()\<close> and \<open>build_eof()\<close> with the default arguments, then \<open>_write_packet\<close>.\<close>

definition send_ok :: "int \<Rightarrow> action" where
  "send_ok affected_rows = send_built (\<lambda>b. build_ok b affected_rows 0 2 0 [])"

definition send_eof :: action where
  "send_eof = send_built (\<lambda>b. build_eof b 0 2)"

text \<open>\<open>_send_error\<close>; the callers leave \<open>sql_state\<close> at its default \<open>HY000\<close>.\<close>

definition send_error :: "int \<Rightarrow> str \<Rightarrow> action" where
  "send_error error_code message = send_built (\<lambda>b. build_error b error_code message (ascii ''HY000''))"

text \<open>\<open>_send_handshake\<close>.\<close>

definition send_handshake :: "Config \<Rightarrow> action" where
  "send_handshake cfg h =
     send_built (\<lambda>b. build_handshake b (Some (server_version cfg)) (Some (handler_connection_id h)) None) h"

text \<open>\<open>_authenticate_user\<close>.\<close>

definition authenticate_user :: "Config \<Rightarrow> HandshakeResponse \<Rightarrow> bool" where
  "authenticate_user cfg auth_info =
     (case users cfg (username auth_info) of
        None \<Rightarrow> False
      | Some user_config \<Rightarrow>
          let expected_password = (case user_config of None \<Rightarrow> [] | Some p \<Rightarrow> p)
          in if expected_password = [] then True else True)"

text \<open>
  \<open>_handle_authentication\<close> reads one packet from the reader \<open>stream\<close>; the result
  comes with the bytes that the read has left.
\<close>

definition handle_authentication ::
  "Config \<Rightarrow> bytes \<Rightarrow> Handler \<Rightarrow> (error option \<times> Handler) \<times> bytes" where
  "handle_authentication cfg stream h0 =
     (let (auth_packet, rest) = read_packet stream;
          h = h0\<lparr>reads := reads h0 + 1\<rparr>
      in ((case auth_packet of
             None \<Rightarrow> (Some (ProtocolError (ascii ''No authentication packet received'')), h)
           | Some pkt \<Rightarrow>
               (case parse_handshake_response pkt of
                  Inl e \<Rightarrow>
                    (Some (ProtocolError
                       (ascii ''Failed to parse authentication packet: '' @ str_of_error e)), h)
                | Inr auth_info \<Rightarrow>
                    (let h1 = h\<lparr>handler_username := username auth_info,
                                handler_database := database auth_info,
                                client_capabilities := capabilities auth_info\<rparr>
                     in if \<not> authenticate_user cfg auth_info then
                          and_then
                            (send_error 1045
                               (ascii ''Access denied for user '' @ [0x27] @ handler_username h1 @ [0x27]))
                            (raise (AuthenticationError
                               (ascii ''Authentication failed for user: '' @ handler_username h1))) h1
                        else
                          and_then (send_ok 0) (\<lambda>h2. (None, h2\<lparr>authenticated := True\<rparr>)) h1))),
          rest))"

text \<open>The column definition tail shared by the \<open>SHOW\<close> results, as the source writes it.\<close>

definition field_tail :: bytes where
  "field_tail = esc ''0c'' @ ascii ''!'' @ esc ''00'' @ esc ''00'' @ esc ''02'' @ esc ''00''
      @ esc ''00'' @ esc ''fd'' @ esc ''01'' @ esc ''00'' @ esc ''1f'' @ esc ''00'' @ esc ''00''"

text \<open>One row packet per row: the row data is computed, then the packet built and written.\<close>

fun send_rows :: "(error + bytes) list \<Rightarrow> action" where
  "send_rows [] h = (None, h)"
| "send_rows (row # rows) h =
     (case row of
        Inl e \<Rightarrow> (Some e, h)
      | Inr row_data \<Rightarrow> and_then (send_raw row_data) (send_rows rows) h)"

text \<open>\<^verbatim>\<open>bytes([len(v)]) + v.encode('utf-8')\<close>\<close>

definition lenenc_str :: "str \<Rightarrow> error + bytes" where
  "lenenc_str v = bind_err (bytes_of_int (py_len v)) (\<lambda>l. Inr (l @ v))"

text \<open>\<open>_send_select_result\<close>.\<close>

definition send_select_result :: "str \<Rightarrow> action" where
  "send_select_result query =
     and_then (send_raw (esc ''01''))
    (and_then (send_raw
       (ascii ''def'' @ esc ''00'' @ ascii ''hchdb'' @ esc ''00'' @ ascii ''demo'' @ esc ''00''
        @ ascii ''demo'' @ esc ''00'' @ ascii ''message'' @ esc ''00'' @ ascii ''message'' @ esc ''00''
        @ esc ''0c'' @ esc ''21'' @ esc ''00'' @ esc ''14'' @ esc ''00'' @ esc ''00'' @ esc ''00''
        @ esc ''fd'' @ esc ''00'' @ esc ''00'' @ esc ''00'' @ esc ''00'' @ esc ''00''))
    (and_then send_eof
    (and_then (send_rows
       [lenenc_str (ascii ''Hello from HchDB! Query: '' @ take_chars 50 query @ ascii ''...'')])
     send_eof)))"

text \<open>\<open>_send_databases_result\<close>.\<close>

definition send_databases_result :: action where
  "send_databases_result =
     (let databases = [ascii ''information_schema'', ascii ''hchdb'', ascii ''test''] in
      and_then (send_raw (esc ''01''))
     (and_then (send_raw
        (ascii ''def'' @ esc ''00'' @ ascii ''information_schema'' @ esc ''00'' @ ascii ''SCHEMATA''
         @ esc ''00'' @ ascii ''SCHEMATA'' @ esc ''00'' @ ascii ''SCHEMA_NAME'' @ esc ''00''
         @ ascii ''SCHEMA_NAME'' @ esc ''00'' @ field_tail))
     (and_then send_eof
     (and_then (send_rows (map lenenc_str databases))
      send_eof))))"

text \<open>\<open>_send_tables_result\<close>.\<close>

definition send_tables_result :: action where
  "send_tables_result h =
     (let tables = [ascii ''users'', ascii ''orders'', ascii ''products''];
          db = (if handler_database h = [] then ascii ''hchdb'' else handler_database h);
          table_name = ascii ''Tables_in_'' @ db
      in and_then (send_raw (esc ''01''))
        (and_then (send_raw
           (ascii ''def'' @ esc ''00'' @ db @ esc ''00'' @ esc ''00'' @ esc ''00''
            @ table_name @ esc ''00'' @ table_name @ esc ''00'' @ field_tail))
        (and_then send_eof
        (and_then (send_rows (map lenenc_str tables))
         send_eof))) h)"

text \<open>\<open>_send_variables_result\<close>.\<close>

definition send_variables_result :: "Config \<Rightarrow> action" where
  "send_variables_result cfg =
     (let variables = [(ascii ''version'', server_version cfg),
                       (ascii ''version_comment'', ascii ''HchDB distributed database''),
                       (ascii ''max_connections'', show_int (max_connections cfg))] in
      and_then (send_raw (esc ''02''))
     (and_then (send_raw
        (ascii ''def'' @ esc ''00'' @ esc ''00'' @ esc ''00'' @ esc ''00'' @ ascii ''Variable_name''
         @ esc ''00'' @ ascii ''Variable_name'' @ esc ''00'' @ field_tail))
     (and_then (send_raw
        (ascii ''def'' @ esc ''00'' @ esc ''00'' @ esc ''00'' @ esc ''00'' @ ascii ''Value''
         @ esc ''00'' @ ascii ''Value'' @ esc ''00'' @ field_tail))
     (and_then send_eof
     (and_then (send_rows
        (map (\<lambda>(name, val). bind_err (lenenc_str name) (\<lambda>n. bind_err (lenenc_str val) (\<lambda>v. Inr (n @ v))))
           variables))
      send_eof)))))"

text \<open>\<open>_send_show_result\<close>.\<close>

definition send_show_result :: "Config \<Rightarrow> Python \<Rightarrow> str \<Rightarrow> action" where
  "send_show_result cfg py query =
     (let query_upper = strip py (upper py query) in
      if contains query_upper (ascii ''DATABASES'') then send_databases_result
      else if contains query_upper (ascii ''TABLES'') then send_tables_result
      else if contains query_upper (ascii ''VERSION'') \<or> contains query_upper (ascii ''VARIABLES'')
        then send_variables_result cfg
      else send_eof)"

text \<open>\<open>_send_simple_result\<close>.\<close>

definition send_simple_result :: "Config \<Rightarrow> Python \<Rightarrow> str \<Rightarrow> action" where
  "send_simple_result cfg py query =
     (let query_upper = strip py (upper py query) in
      if startswith query_upper (ascii ''SELECT'') then send_select_result query
      else if startswith query_upper (ascii ''INSERT'') \<or> startswith query_upper (ascii ''UPDATE'')
              \<or> startswith query_upper (ascii ''DELETE'') then send_ok 1
      else if startswith query_upper (ascii ''SHOW'') then send_show_result cfg py query
      else send_ok 0)"

text \<open>\<open>_send_query_result\<close>.\<close>

definition send_query_result :: action where
  "send_query_result = send_ok 0"

text \<open>\<open>_handle_query\<close>.\<close>

definition handle_query :: "Config \<Rightarrow> Python \<Rightarrow> Packet \<Rightarrow> action" where
  "handle_query cfg py packet =
     try_except
       (\<lambda>h. case parse_query packet of
               Inl e \<Rightarrow> (Some e, h)
             | Inr query \<Rightarrow>
                 (case query_handler h of
                    Some run \<Rightarrow>
                      (case run query of Some e \<Rightarrow> (Some e, h) | None \<Rightarrow> send_query_result h)
                  | None \<Rightarrow> send_simple_result cfg py query h))
       (\<lambda>e. send_error 1064 (ascii ''Query error: '' @ str_of_error e))"

text \<open>\<open>_handle_ping\<close>, \<open>_handle_init_db\<close> and \<open>_handle_field_list\<close>.\<close>

definition handle_ping :: action where
  "handle_ping = send_ok 0"

definition handle_init_db :: "Packet \<Rightarrow> action" where
  "handle_init_db packet h =
     (if length (payload packet) < 2 then send_error 1064 (ascii ''Invalid USE command'') h
      else
        (case decode_utf8 (drop 1 (payload packet)) of
           Inl e \<Rightarrow> (Some e, h)
         | Inr db \<Rightarrow> send_ok 0 (h\<lparr>handler_database := db\<rparr>)))"

definition handle_field_list :: "Packet \<Rightarrow> action" where
  "handle_field_list packet = send_eof"

text \<open>\<open>_process_command\<close>.\<close>

definition process_command :: "Config \<Rightarrow> Python \<Rightarrow> Packet \<Rightarrow> action" where
  "process_command cfg py packet h =
     (case payload packet of
        [] \<Rightarrow> send_error 1064 (ascii ''Empty command packet'') h
      | command # body \<Rightarrow>
          if command = 0x01 then (None, h)
          else if command = 0x03 then handle_query cfg py packet h
          else if command = 0x0E then handle_ping h
          else if command = 0x02 then handle_init_db packet h
          else if command = 0x04 then handle_field_list packet h
          else send_error 1047 (ascii ''Unknown command: '' @ show_int (uint command)) h)"

text \<open>
  \<open>_handle_commands\<close>, on the reader \<open>stream\<close>. The loop ends when \<open>_read_packet\<close>
  returns \<open>None\<close>. An exception of \<open>_process_command\<close> is answered with error 1105 and
  the loop goes on; an exception raised while answering leaves the loop. Every packet
  read shortens the reader, so the loop ends.
\<close>

function handle_commands :: "Config \<Rightarrow> Python \<Rightarrow> bytes \<Rightarrow> action" where
  "handle_commands cfg py stream h =
     (case read_packet stream of
        (None, rest) \<Rightarrow> (None, h\<lparr>reads := reads h + 1\<rparr>)
      | (Some packet, rest) \<Rightarrow>
          (case process_command cfg py packet (h\<lparr>reads := reads h + 1\<rparr>) of
             (None, h') \<Rightarrow> handle_commands cfg py rest h'
           | (Some e, h') \<Rightarrow>
               (case send_error 1105 (ascii ''Internal error: '' @ str_of_error e) h' of
                  (None, h'') \<Rightarrow> handle_commands cfg py rest h''
                | (Some e', h'') \<Rightarrow> (Some e', h''))))"
  by pat_completeness auto

termination
  by (relation "measure (\<lambda>(cfg, py, stream, h). length stream)")
     (auto simp: read_packet_def Let_def split: if_splits)

declare handle_commands.simps [simp del]

text \<open>\<open>_close_connection\<close>.\<close>

definition close_connection :: "Handler \<Rightarrow> Handler" where
  "close_connection h =
     (if \<not> closing (writer h) then h\<lparr>writer := (writer h)\<lparr>closing := True\<rparr>\<rparr> else h)"

text \<open>
  \<open>handle_connection\<close> on the reader \<open>stream\<close>: handshake, authentication, command
  loop; any exception is answered with error 1105; the connection is closed at the end
  in every case.
\<close>

definition handle_connection :: "Config \<Rightarrow> Python \<Rightarrow> bytes \<Rightarrow> action" where
  "handle_connection cfg py stream h =
     (let (r, h') =
            try_except
              (and_then (send_handshake cfg)
                 (\<lambda>h1. case handle_authentication cfg stream h1 of
                         ((Some e, h2), rest) \<Rightarrow> (Some e, h2)
                       | ((None, h2), rest) \<Rightarrow> handle_commands cfg py rest h2))
              (\<lambda>e. send_error 1105 (ascii ''Internal error: '' @ str_of_error e)) h
      in (r, close_connection h'))"

section \<open>The connection manager (\<open>connection/manager.py\<close>)\<close>

text \<open>Instants of \<open>time.time()\<close> are read as numbers; admission does not look at them.\<close>

record ConnectionInfo =
  connection_id :: int
  client_address :: "str \<times> int"
  username_info :: str
  database_info :: str
  connected_at :: int
  last_activity :: int
  query_count :: int
  bytes_sent :: int
  bytes_received :: int

record ConnectionManager =
  connections :: "int \<rightharpoonup> ConnectionInfo"
  active_handlers :: "int \<rightharpoonup> Handler"
  next_connection_id :: int
  limit :: int
  total_connections :: int
  rejected_connections :: int

text \<open>\<open>ConnectionManager.__init__\<close>; \<open>limit\<close> is \<open>self._max_connections\<close>.\<close>

definition new_ConnectionManager :: "Config \<Rightarrow> ConnectionManager" where
  "new_ConnectionManager cfg =
     \<lparr>connections = Map.empty, active_handlers = Map.empty, next_connection_id = 1,
      limit = max_connections cfg, total_connections = 0, rejected_connections = 0\<rparr>"

text \<open>\<open>len(self._connections)\<close>\<close>

definition connection_count :: "ConnectionManager \<Rightarrow> int" where
  "connection_count m = int (card (dom (connections m)))"

text \<open>
  \<open>handle_new_connection\<close> with the writer of the accepted socket and the two instants
  read for the new \<open>ConnectionInfo\<close>. It returns the manager, the writer, and the handler
  whose \<open>handle_connection\<close> task it has created, if any; only that task writes the
  handshake.
\<close>

definition handle_new_connection ::
  "Writer \<Rightarrow> int \<Rightarrow> int \<Rightarrow> ConnectionManager \<Rightarrow> ConnectionManager \<times> Writer \<times> Handler option" where
  "handle_new_connection w now1 now2 m =
     (if connection_count m \<ge> limit m then
        (m\<lparr>rejected_connections := rejected_connections m + 1\<rparr>, w\<lparr>closing := True\<rparr>, None)
      else
        let cid = next_connection_id m;
            info = \<lparr>connection_id = cid, client_address = peername w, username_info = [],
                    database_info = [], connected_at = now1, last_activity = now2,
                    query_count = 0, bytes_sent = 0, bytes_received = 0\<rparr>;
            handler = new_Handler w cid
        in (m\<lparr>next_connection_id := cid + 1,
              connections := (connections m)(cid \<mapsto> info),
              total_connections := total_connections m + 1,
              active_handlers := (active_handlers m)(cid \<mapsto> handler)\<rparr>,
            w, Some handler))"

text \<open>
  \<open>_cleanup_connection\<close>, run when a session ends and by the idle sweep. It deletes
  the connection's entry, awaits the closing of the handler's writer, and then deletes
  the handler's entry: other calls can run between the two deletions, so each is a step
  of its own. The writer that is closed belongs to the session.
\<close>

definition forget_connection :: "int \<Rightarrow> ConnectionManager \<Rightarrow> ConnectionManager" where
  "forget_connection cid m = m\<lparr>connections := (connections m)(cid := None)\<rparr>"

definition forget_handler :: "int \<Rightarrow> ConnectionManager \<Rightarrow> ConnectionManager" where
  "forget_handler cid m = m\<lparr>active_handlers := (active_handlers m)(cid := None)\<rparr>"

definition cleanup_connection :: "int \<Rightarrow> ConnectionManager \<Rightarrow> ConnectionManager" where
  "cleanup_connection cid m = forget_handler cid (forget_connection cid m)"

text \<open>\<open>update_connection_activity\<close> and \<open>update_connection_auth\<close>.\<close>

definition update_connection_activity ::
  "int \<Rightarrow> int \<Rightarrow> int \<Rightarrow> int \<Rightarrow> int \<Rightarrow> ConnectionManager \<Rightarrow> ConnectionManager" where
  "update_connection_activity cid now qc bs br m =
     (case connections m cid of
        None \<Rightarrow> m
      | Some info \<Rightarrow>
          m\<lparr>connections := (connections m)(cid \<mapsto>
              info\<lparr>last_activity := now, query_count := query_count info + qc,
                   bytes_sent := bytes_sent info + bs,
                   bytes_received := bytes_received info + br\<rparr>)\<rparr>)"

definition update_connection_auth :: "int \<Rightarrow> str \<Rightarrow> str \<Rightarrow> ConnectionManager \<Rightarrow> ConnectionManager" where
  "update_connection_auth cid name db m =
     (case connections m cid of
        None \<Rightarrow> m
      | Some info \<Rightarrow>
          m\<lparr>connections := (connections m)(cid \<mapsto> info\<lparr>username_info := name, database_info := db\<rparr>)\<rparr>)"

text \<open>
  The manager over time: the calls that reach it, in the order the event loop runs
  them. Session tasks and the idle sweep end in \<open>_cleanup_connection\<close> calls, whose two
  halves may be apart.
\<close>

datatype manager_call =
    NewConnection Writer int int
  | ForgetConnection int
  | ForgetHandler int
  | UpdateActivity int int int int int
  | UpdateAuth int str str

fun manager_step :: "ConnectionManager \<Rightarrow> manager_call \<Rightarrow> ConnectionManager" where
  "manager_step m (NewConnection w now1 now2) = fst (handle_new_connection w now1 now2 m)"
| "manager_step m (ForgetConnection cid) = forget_connection cid m"
| "manager_step m (ForgetHandler cid) = forget_handler cid m"
| "manager_step m (UpdateActivity cid now qc bs br) = update_connection_activity cid now qc bs br m"
| "manager_step m (UpdateAuth cid name db) = update_connection_auth cid name db m"

fun manager_run :: "ConnectionManager \<Rightarrow> manager_call list \<Rightarrow> ConnectionManager" where
  "manager_run m [] = m"
| "manager_run m (c # cs) = manager_run (manager_step m c) cs"

section \<open>Auxiliary notions for the proofs\<close>

text \<open>
  The handler after one more packet with payload \<open>data\<close> has been built and written:
  the packet carries the counter's value and the counter has moved on.
\<close>

definition emitted :: "bytes \<Rightarrow> Handler \<Rightarrow> Handler" where
  "emitted data h =
     h\<lparr>packet_builder := (packet_builder h)\<lparr>counter := (counter (packet_builder h) + 1) mod 256\<rparr>,
       writer := (writer h)\<lparr>sent := sent (writer h)
                  @ [\<lparr>payload = data, sequence_id = counter (packet_builder h)\<rparr>]\<rparr>\<rparr>"

text \<open>The builder's counter is a byte.\<close>

definition in_range :: "Handler \<Rightarrow> bool" where
  "in_range h \<longleftrightarrow> 0 \<le> counter (packet_builder h) \<and> counter (packet_builder h) < 256"

text \<open>The registry is finite and within the limit.\<close>

definition within_limit :: "ConnectionManager \<Rightarrow> bool" where
  "within_limit m \<longleftrightarrow> finite (dom (connections m)) \<and> connection_count m \<le> limit m"

section \<open>Properties of the codec\<close>

lemma le_bytes_length: "length (le_bytes n v) = n"
  by (induction n arbitrary: v) simp_all

lemma le_int_le_bytes: "0 \<le> v \<Longrightarrow> v < 256 ^ n \<Longrightarrow> le_int (le_bytes n v) = v"
proof (induction n arbitrary: v)
  case 0
  then show ?case by simp
next
  case (Suc n)
  have low: "uint (word_of_int v :: byte) = v mod 256"
    by (simp add: uint_word_of_int)
  from Suc.prems have bound: "v < 256 * 256 ^ n"
    by simp
  from Suc.prems have nonneg: "0 \<le> v div 256"
    by simp
  from bound have "v div 256 < 256 ^ n"
    by arith
  with nonneg have "le_int (le_bytes n (v div 256)) = v div 256"
    by (rule Suc.IH)
  with low show ?case by simp
qed

lemma take_le_bytes: "take n (le_bytes (n + k) v) = le_bytes n v"
  by (induction n arbitrary: v) simp_all

lemma le_int_append_zero: "le_int (bs @ [0]) = le_int bs"
  by (induction bs) simp_all

lemma le_bytes_numeral:
  "le_bytes (numeral k) v = word_of_int v # le_bytes (pred_numeral k) (v div 256)"
  by (simp add: numeral_eq_Suc)

lemma le_bytes_one: "le_bytes 1 v = [word_of_int v]"
  by simp

lemma le_int_replicate_zero: "le_int (replicate n 0) = 0"
  by (induction n) simp_all

lemma ascii_Nil: "ascii [] = []"
  by (simp add: ascii_def)

lemma ascii_Cons: "ascii (c # cs) = of_nat (of_char c) # ascii cs"
  by (simp add: ascii_def)

lemma decode_tagged:
  "uint t = 0xFC \<Longrightarrow> length bs = 2 \<Longrightarrow> decode_length_encoded_int (t # bs @ rest) = Inr (le_int bs, rest)"
  "uint t = 0xFD \<Longrightarrow> length bs = 3 \<Longrightarrow> decode_length_encoded_int (t # bs @ rest) = Inr (le_int bs, rest)"
  "uint t = 0xFE \<Longrightarrow> length bs = 8 \<Longrightarrow> decode_length_encoded_int (t # bs @ rest) = Inr (le_int bs, rest)"
  by (simp_all add: decode_length_encoded_int_def unpack_uint_def le_int_append_zero)

lemma encode_small: "0 \<le> v \<Longrightarrow> v < 251 \<Longrightarrow> encode_length_encoded_int v = Inr [word_of_int v]"
  by (simp add: encode_length_encoded_int_def pack_uint_def eval_nat_numeral)

lemma encode_FC: "251 \<le> v \<Longrightarrow> v < 65536 \<Longrightarrow> encode_length_encoded_int v = Inr (0xFC # le_bytes 2 v)"
  by (simp add: encode_length_encoded_int_def pack_uint_def)

lemma encode_FD: "65536 \<le> v \<Longrightarrow> v < 16777216 \<Longrightarrow> encode_length_encoded_int v = Inr (0xFD # le_bytes 3 v)"
  using take_le_bytes [of 3 1 v]
  by (simp add: encode_length_encoded_int_def pack_uint_def)

lemma encode_FE: "16777216 \<le> v \<Longrightarrow> v < 2 ^ 64 \<Longrightarrow> encode_length_encoded_int v = Inr (0xFE # le_bytes 8 v)"
  by (simp add: encode_length_encoded_int_def pack_uint_def)

lemma decode_small: "0 \<le> v \<Longrightarrow> v < 251 \<Longrightarrow> decode_length_encoded_int ((word_of_int v :: byte) # rest) = Inr (v, rest)"
  by (simp add: decode_length_encoded_int_def uint_word_of_int take_bit_eq_mod)

lemma read_nts_unterminated: "0 \<notin> set v \<Longrightarrow> read_nts v = (v, [])"
  by (induction v) auto

lemma read_nts_terminated: "0 \<notin> set v \<Longrightarrow> read_nts (v @ 0 # rest) = (v, rest)"
  by (induction v) auto

lemma header_fields:
  assumes "length hdr = 32"
  shows "unpack_uint 4 (take 4 hdr) = Inr (le_int (take 4 hdr))"
    and "unpack_uint 4 (take 4 (drop 4 hdr)) = Inr (le_int (take 4 (drop 4 hdr)))"
    and "unpack_uint (Suc 0) (take (Suc 0) (drop 8 hdr)) = Inr (le_int (take 1 (drop 8 hdr)))"
  using assms by (simp_all add: unpack_uint_def)

lemma capability_halves:
  "capabilities_low = 0xFFFF" "capabilities_high = 0x01FF"
  by (simp_all add: capabilities_low_def capabilities_high_def)

lemma decode_of_encode:
  assumes "0 \<le> v" and "encode_length_encoded_int v = Inr bs"
  shows "decode_length_encoded_int (bs @ rest) = Inr (v, rest)"
proof -
  have "v < 2 ^ 64"
  proof (rule ccontr)
    assume "\<not> v < 2 ^ 64"
    then have "encode_length_encoded_int v = Inl (StructError (ascii ''argument out of range''))"
      by (simp add: encode_length_encoded_int_def pack_uint_def)
    with assms show False
      by simp
  qed
  consider (a) "v < 251" | (b) "251 \<le> v" "v < 65536" | (c) "65536 \<le> v" "v < 16777216"
    | (d) "16777216 \<le> v"
    by linarith
  then show ?thesis
  proof cases
    case a
    with assms show ?thesis
      by (auto simp: encode_small decode_small)
  next
    case b
    then have "le_int (le_bytes 2 v) = v"
      by (intro le_int_le_bytes) simp_all
    with b assms show ?thesis
      by (auto simp: encode_FC decode_tagged(1) le_bytes_length)
  next
    case c
    then have "le_int (le_bytes 3 v) = v"
      by (intro le_int_le_bytes) simp_all
    with c assms show ?thesis
      by (auto simp: encode_FD decode_tagged(2) le_bytes_length)
  next
    case d
    with assms \<open>v < 2 ^ 64\<close> have "le_int (le_bytes 8 v) = v"
      by (intro le_int_le_bytes) simp_all
    with d assms \<open>v < 2 ^ 64\<close> show ?thesis
      by (auto simp: encode_FE decode_tagged(3) le_bytes_length)
  qed
qed

lemma read_auth_data_lenenc:
  assumes "caps AND 0x00200000 \<noteq> 0" and "length auth < 2 ^ 63"
    and "encode_length_encoded_int (int (length auth)) = Inr enc"
  shows "read_auth_data caps (enc @ auth @ s) = Inr (auth, s)"
proof -
  from assms(3) have "decode_length_encoded_int (enc @ auth @ s) = Inr (int (length auth), auth @ s)"
    by (intro decode_of_encode) simp_all
  moreover from assms(2) have "int (length auth) < 2 ^ 63"
    by (metis of_nat_less_iff of_nat_numeral of_nat_power)
  ultimately show ?thesis
    using assms(1) by (simp add: read_auth_data_def)
qed

lemma read_auth_data_nts:
  assumes "caps AND 0x00200000 = 0" and "0 \<notin> set auth"
  shows "read_auth_data caps (auth @ 0 # s) = Inr (auth, s)"
  using assms by (simp add: read_auth_data_def read_nts_terminated)

lemma read_auth_data_end: "read_auth_data caps [] = Inr ([], [])"
  by (simp add: read_auth_data_def decode_length_encoded_int_def)

lemma read_optional_nts_last:
  assumes "0 \<notin> set v" and "valid_utf8 v"
  shows "read_optional_nts caps flag v = Inr (if caps AND flag \<noteq> 0 then v else [], if caps AND flag \<noteq> 0 then [] else v)"
  using assms by (simp add: read_optional_nts_def read_nts_unterminated decode_utf8_def)

lemma read_optional_nts_inner:
  assumes "0 \<notin> set v" and "valid_utf8 v" and "caps AND flag \<noteq> 0"
  shows "read_optional_nts caps flag (v @ 0 # s) = Inr (v, s)"
  using assms by (simp add: read_optional_nts_def read_nts_terminated decode_utf8_def)

lemma read_optional_nts_end: "read_optional_nts caps flag [] = Inr ([], [])"
  by (simp add: read_optional_nts_def decode_utf8_def)

lemma read_optional_nts_absent:
  "caps AND flag = 0 \<Longrightarrow> read_optional_nts caps flag s = Inr ([], s)"
  by (simp add: read_optional_nts_def)

subsection \<open>Length-encoded integers round-trip in their shortest form\<close>

text \<open>
  Claim C6. For every natural number \<open>v\<close> below \<open>2^64\<close> the encoder succeeds, the decoder
  reads \<open>v\<close> back from the encoding (and leaves what follows it in the stream), and the
  encoding is the short form: one byte below 251, the tag \<open>0xFC\<close> and two bytes below
  65536, the tag \<open>0xFD\<close> and three bytes below 16777216, the tag \<open>0xFE\<close> and eight
  bytes otherwise.
\<close>

theorem lei_roundtrip_minimal:
  assumes "0 \<le> v" and "v < 2 ^ 64"
  shows "\<exists>bs. encode_length_encoded_int v = Inr bs
           \<and> decode_length_encoded_int (bs @ rest) = Inr (v, rest)
           \<and> bs = (if v < 251 then [word_of_int v]
                   else if v < 65536 then 0xFC # le_bytes 2 v
                   else if v < 16777216 then 0xFD # le_bytes 3 v
                   else 0xFE # le_bytes 8 v)
           \<and> length bs = (if v < 251 then 1 else if v < 65536 then 3
                           else if v < 16777216 then 4 else 9)"
proof -
  consider (a) "v < 251" | (b) "251 \<le> v" "v < 65536" | (c) "65536 \<le> v" "v < 16777216"
    | (d) "16777216 \<le> v"
    by linarith
  then show ?thesis
  proof cases
    case a
    with assms show ?thesis
      by (simp add: encode_small decode_small)
  next
    case b
    then have "le_int (le_bytes 2 v) = v"
      by (intro le_int_le_bytes) simp_all
    with b show ?thesis
      by (simp add: encode_FC decode_tagged(1) le_bytes_length)
  next
    case c
    then have "le_int (le_bytes 3 v) = v"
      by (intro le_int_le_bytes) simp_all
    with c show ?thesis
      by (simp add: encode_FD decode_tagged(2) le_bytes_length)
  next
    case d
    with assms have "le_int (le_bytes 8 v) = v"
      by (intro le_int_le_bytes) simp_all
    with d assms show ?thesis
      by (simp add: encode_FE decode_tagged(3) le_bytes_length)
  qed
qed

text \<open>The theorem at 70000, which takes the \<open>0xFD\<close> form.\<close>

theorem lei_roundtrip_minimal_witness:
  "(0::int) \<le> 70000 \<and> (70000::int) < 2 ^ 64
   \<and> encode_length_encoded_int 70000 = Inr [0xFD, 0x70, 0x11, 0x01]
   \<and> decode_length_encoded_int [0xFD, 0x70, 0x11, 0x01] = Inr (70000, [])"
proof -
  have h: "(0::int) \<le> 70000" "(70000::int) < 2 ^ 64"
    by simp_all
  have e: "encode_length_encoded_int 70000 = Inr [0xFD, 0x70, 0x11, 0x01]"
    by code_simp
  from lei_roundtrip_minimal [OF h, of "[]"] e
  have "decode_length_encoded_int [0xFD, 0x70, 0x11, 0x01] = Inr (70000, [])"
    by auto
  with h e show ?thesis
    by simp
qed

subsection \<open>The tags \<open>0xFB\<close> and \<open>0xFF\<close> are rejected\<close>

text \<open>
  Claim C10. On a stream whose first byte is \<open>0xFB\<close> or \<open>0xFF\<close> the decoder raises
  \<open>ProtocolError\<close> and returns no value. The error reaches the caller of
  \<open>parse_handshake_response\<close> when such a byte stands where the length of the
  length-encoded authentication data is expected: after a 32-byte header that sets
  \<open>CLIENT_PLUGIN_AUTH_LENENC_CLIENT_DATA\<close> and a terminated user name.
\<close>

theorem decode_rejects_FB_FF:
  assumes "tag = 0xFB \<or> tag = 0xFF"
  shows "decode_length_encoded_int (tag # rest)
           = Inl (ProtocolError (ascii ''Invalid length-encoded integer: '' @ show_int (uint tag)))
       \<and> (length hdr = 32 \<and> le_int (take 4 hdr) AND 0x00200000 \<noteq> 0
            \<and> 0 \<notin> set name \<and> valid_utf8 name \<longrightarrow>
          parse_handshake_response \<lparr>payload = hdr @ name @ 0 # tag # rest, sequence_id = sq\<rparr>
           = Inl (ProtocolError (ascii ''Invalid length-encoded integer: '' @ show_int (uint tag))))"
proof -
  from assms have d: "decode_length_encoded_int (tag # rest)
           = Inl (ProtocolError (ascii ''Invalid length-encoded integer: '' @ show_int (uint tag)))"
    by (auto simp: decode_length_encoded_int_def)
  have "parse_handshake_response \<lparr>payload = hdr @ name @ 0 # tag # rest, sequence_id = sq\<rparr>
           = Inl (ProtocolError (ascii ''Invalid length-encoded integer: '' @ show_int (uint tag)))"
    if "length hdr = 32" and "le_int (take 4 hdr) AND 0x00200000 \<noteq> 0"
      and "0 \<notin> set name" and "valid_utf8 name"
    using that d
    by (simp add: parse_handshake_response_def header_fields bind_err_def read_nts_terminated
      decode_utf8_def read_auth_data_def)
  with d show ?thesis
    by blast
qed

text \<open>The theorem at the tag \<open>0xFB\<close>, after the user name \<open>root\<close>.\<close>

theorem decode_rejects_FB_FF_witness:
  "(let hdr = [0x00, 0x00, 0x20, 0x00] @ replicate 28 0
    in ((0xFB :: byte) = 0xFB \<or> (0xFB :: byte) = 0xFF)
     \<and> length hdr = 32 \<and> le_int (take 4 hdr) AND 0x00200000 \<noteq> 0
     \<and> 0 \<notin> set (ascii ''root'') \<and> valid_utf8 (ascii ''root'')
     \<and> decode_length_encoded_int [0xFB, 0x01]
        = Inl (ProtocolError (ascii ''Invalid length-encoded integer: 251''))
     \<and> parse_handshake_response \<lparr>payload = hdr @ ascii ''root'' @ [0, 0xFB, 0x01], sequence_id = 1\<rparr>
        = Inl (ProtocolError (ascii ''Invalid length-encoded integer: 251'')))"
proof -
  define hdr :: bytes where "hdr = [0x00, 0x00, 0x20, 0x00] @ replicate 28 0"
  have h1: "(0xFB :: byte) = 0xFB \<or> (0xFB :: byte) = 0xFF"
    by simp
  have h2: "length hdr = 32"
    by (simp add: hdr_def)
  have h3: "le_int (take 4 hdr) AND 0x00200000 \<noteq> 0"
    by (simp add: hdr_def)
  have h4: "0 \<notin> set (ascii ''root'')" and h5: "valid_utf8 (ascii ''root'')"
    by (simp_all add: ascii_Cons ascii_Nil)
  have shown: "show_int (uint (0xFB :: byte)) = ascii ''251''"
    by code_simp
  have msg: "ascii ''Invalid length-encoded integer: '' @ ascii ''251'' = ascii ''Invalid length-encoded integer: 251''"
    by (simp add: ascii_def)
  from decode_rejects_FB_FF [OF h1, of "[0x01]" hdr "ascii ''root''" 1] h2 h3 h4 h5
  have "decode_length_encoded_int [0xFB, 0x01]
        = Inl (ProtocolError (ascii ''Invalid length-encoded integer: 251''))
     \<and> parse_handshake_response \<lparr>payload = hdr @ ascii ''root'' @ [0, 0xFB, 0x01], sequence_id = 1\<rparr>
        = Inl (ProtocolError (ascii ''Invalid length-encoded integer: 251''))"
    by (simp only: shown msg append_Cons append_Nil simp_thms)
  with h1 h2 h3 h4 h5 show ?thesis
    unfolding hdr_def [symmetric] Let_def by simp
qed

subsection \<open>A null-terminated field may end with the payload\<close>

text \<open>
  Claim C7 as stated fails: the parser accepts a user name that runs to the end of the
  payload with no terminator. The packet below parses, with the user name \<open>root\<close>.
\<close>

theorem unterminated_username_counterexample:
  "parse_handshake_response \<lparr>payload = replicate 32 0 @ ascii ''root'', sequence_id = 1\<rparr>
   = Inr \<lparr>username = ascii ''root'', auth_data = [], database = [], auth_plugin = [],
          capabilities = 0, max_packet_size = 0, charset = 0\<rparr>"
  by (simp add: parse_handshake_response_def bind_err_def decode_utf8_def unpack_uint_def
      read_auth_data_def read_optional_nts_def ascii_Cons ascii_Nil le_int_replicate_zero)

text \<open>
  Claim C7, as amended. A null-terminated field of the handshake response that reaches
  the end of the payload before a zero byte is accepted: its value is the bytes up to
  the end of the payload and the fields after it are empty. This holds for the user
  name under every capability word; for the authentication data when it is sent
  null-terminated (\<open>PLUGIN_AUTH_LENENC_CLIENT_DATA\<close> clear); for the database whenever
  it is sent (\<open>CONNECT_WITH_DB\<close> set); and for the plugin name whenever it is sent
  (\<open>PLUGIN_AUTH\<close> set), with a database before it or without. Before the database and
  the plugin name the authentication data stands in either of its forms,
  \<open>auth_field\<close>: null-terminated, or length-encoded with a length below \<open>2^63\<close>. The
  string fields are well-formed UTF-8.
\<close>

theorem unterminated_field_is_accepted:
  assumes "length hdr = 32"
    and "0 \<notin> set name" and "0 \<notin> set db" and "0 \<notin> set plugin"
    and "valid_utf8 name" and "valid_utf8 db" and "valid_utf8 plugin"
    and "(le_int (take 4 hdr) AND 0x00200000 = 0 \<and> 0 \<notin> set auth \<and> auth_field = auth @ [0])
       \<or> (le_int (take 4 hdr) AND 0x00200000 \<noteq> 0 \<and> length auth < 2 ^ 63
           \<and> encode_length_encoded_int (int (length auth)) = Inr enc \<and> auth_field = enc @ auth)"
  shows "(let caps = le_int (take 4 hdr);
              with_db = (caps AND 0x00000008 \<noteq> 0);
              parsed = (\<lambda>a d p. Inr \<lparr>username = name, auth_data = a, database = d, auth_plugin = p,
                           capabilities = caps,
                           max_packet_size = le_int (take 4 (drop 4 hdr)),
                           charset = le_int (take 1 (drop 8 hdr))\<rparr>)
          in parse_handshake_response \<lparr>payload = hdr @ name, sequence_id = sq\<rparr> = parsed [] [] []
           \<and> (caps AND 0x00200000 = 0 \<longrightarrow>
                parse_handshake_response \<lparr>payload = hdr @ name @ 0 # auth, sequence_id = sq\<rparr>
                = parsed auth [] [])
           \<and> (with_db \<longrightarrow>
                parse_handshake_response \<lparr>payload = hdr @ name @ 0 # auth_field @ db, sequence_id = sq\<rparr>
                = parsed auth db [])
           \<and> (caps AND 0x00080000 \<noteq> 0 \<longrightarrow>
                parse_handshake_response
                  \<lparr>payload = hdr @ name @ 0 # auth_field @ (if with_db then db @ [0] else []) @ plugin,
                   sequence_id = sq\<rparr>
                = parsed auth (if with_db then db else []) plugin))"
proof -
  note defs = parse_handshake_response_def header_fields bind_err_def decode_utf8_def
  have field: "read_auth_data (le_int (take 4 hdr)) (auth_field @ s) = Inr (auth, s)" for s
    using assms(8) by (auto simp: read_auth_data_lenenc read_auth_data_nts)
  from assms have one: "parse_handshake_response \<lparr>payload = hdr @ name, sequence_id = sq\<rparr>
      = Inr \<lparr>username = name, auth_data = [], database = [], auth_plugin = [],
             capabilities = le_int (take 4 hdr), max_packet_size = le_int (take 4 (drop 4 hdr)),
             charset = le_int (take 1 (drop 8 hdr))\<rparr>"
    by (simp add: defs read_nts_unterminated read_auth_data_end read_optional_nts_end)
  from assms(1-7) assms(8) have two: "le_int (take 4 hdr) AND 0x00200000 = 0 \<Longrightarrow>
    parse_handshake_response \<lparr>payload = hdr @ name @ 0 # auth, sequence_id = sq\<rparr>
      = Inr \<lparr>username = name, auth_data = auth, database = [], auth_plugin = [],
             capabilities = le_int (take 4 hdr), max_packet_size = le_int (take 4 (drop 4 hdr)),
             charset = le_int (take 1 (drop 8 hdr))\<rparr>"
    by (auto simp: defs read_nts_unterminated read_nts_terminated read_auth_data_def read_optional_nts_end)
  from assms(1-7) field [of db] have three:
    "le_int (take 4 hdr) AND 0x00000008 \<noteq> 0 \<Longrightarrow>
     parse_handshake_response \<lparr>payload = hdr @ name @ 0 # auth_field @ db, sequence_id = sq\<rparr>
      = Inr \<lparr>username = name, auth_data = auth, database = db, auth_plugin = [],
             capabilities = le_int (take 4 hdr), max_packet_size = le_int (take 4 (drop 4 hdr)),
             charset = le_int (take 1 (drop 8 hdr))\<rparr>"
    by (simp add: defs read_nts_terminated read_optional_nts_last read_optional_nts_end)
  from assms(1-7) field [of "db @ 0 # plugin"] have four:
    "le_int (take 4 hdr) AND 0x00000008 \<noteq> 0 \<Longrightarrow> le_int (take 4 hdr) AND 0x00080000 \<noteq> 0 \<Longrightarrow>
     parse_handshake_response
       \<lparr>payload = hdr @ name @ 0 # auth_field @ db @ 0 # plugin, sequence_id = sq\<rparr>
      = Inr \<lparr>username = name, auth_data = auth, database = db, auth_plugin = plugin,
             capabilities = le_int (take 4 hdr), max_packet_size = le_int (take 4 (drop 4 hdr)),
             charset = le_int (take 1 (drop 8 hdr))\<rparr>"
    by (simp add: defs read_nts_terminated read_optional_nts_inner read_optional_nts_last)
  from assms(1-7) field [of plugin] have five:
    "le_int (take 4 hdr) AND 0x00000008 = 0 \<Longrightarrow> le_int (take 4 hdr) AND 0x00080000 \<noteq> 0 \<Longrightarrow>
     parse_handshake_response
       \<lparr>payload = hdr @ name @ 0 # auth_field @ plugin, sequence_id = sq\<rparr>
      = Inr \<lparr>username = name, auth_data = auth, database = [], auth_plugin = plugin,
             capabilities = le_int (take 4 hdr), max_packet_size = le_int (take 4 (drop 4 hdr)),
             charset = le_int (take 1 (drop 8 hdr))\<rparr>"
    by (simp add: defs read_nts_terminated read_optional_nts_absent read_optional_nts_last)
  from one two three four five show ?thesis
    by (simp add: Let_def)
qed

text \<open>
  The theorem at three payloads: one that ends inside the plugin name, with every field
  null-terminated before it; one that ends inside the database, after length-encoded
  authentication data; one that ends inside the plugin name, after length-encoded
  authentication data and with no database.
\<close>

theorem unterminated_field_is_accepted_witness:
  "(let nts = [0x08, 0x00, 0x08, 0x00] @ replicate 28 0;
        lenenc_db = [0x08, 0x00, 0x20, 0x00] @ replicate 28 0;
        lenenc_plugin = [0x00, 0x00, 0x28, 0x00] @ replicate 28 0
    in length nts = 32 \<and> le_int (take 4 nts) = 0x00080008
     \<and> 0x00080008 AND 0x00200000 = (0 :: int) \<and> 0x00080008 AND 0x00000008 \<noteq> (0 :: int)
     \<and> 0x00080008 AND 0x00080000 \<noteq> (0 :: int)
     \<and> parse_handshake_response
          \<lparr>payload = nts @ ascii ''root'' @ 0 # [1, 2] @ 0 # ascii ''hchdb'' @ 0 # ascii ''native'',
           sequence_id = 1\<rparr>
        = Inr \<lparr>username = ascii ''root'', auth_data = [1, 2], database = ascii ''hchdb'',
               auth_plugin = ascii ''native'', capabilities = 0x00080008, max_packet_size = 0,
               charset = 0\<rparr>
     \<and> length lenenc_db = 32 \<and> le_int (take 4 lenenc_db) = 0x00200008
     \<and> 0x00200008 AND 0x00200000 \<noteq> (0 :: int) \<and> 0x00200008 AND 0x00000008 \<noteq> (0 :: int)
     \<and> encode_length_encoded_int 2 = Inr [2]
     \<and> parse_handshake_response
          \<lparr>payload = lenenc_db @ ascii ''root'' @ 0 # [2, 1, 2] @ ascii ''hchdb'', sequence_id = 1\<rparr>
        = Inr \<lparr>username = ascii ''root'', auth_data = [1, 2], database = ascii ''hchdb'',
               auth_plugin = [], capabilities = 0x00200008, max_packet_size = 0, charset = 0\<rparr>
     \<and> length lenenc_plugin = 32 \<and> le_int (take 4 lenenc_plugin) = 0x00280000
     \<and> 0x00280000 AND 0x00200000 \<noteq> (0 :: int) \<and> 0x00280000 AND 0x00000008 = (0 :: int)
     \<and> 0x00280000 AND 0x00080000 \<noteq> (0 :: int)
     \<and> parse_handshake_response
          \<lparr>payload = lenenc_plugin @ ascii ''root'' @ 0 # [2, 1, 2] @ ascii ''native'', sequence_id = 1\<rparr>
        = Inr \<lparr>username = ascii ''root'', auth_data = [1, 2], database = [],
               auth_plugin = ascii ''native'', capabilities = 0x00280000, max_packet_size = 0,
               charset = 0\<rparr>)"
proof -
  define nts :: bytes where "nts = [0x08, 0x00, 0x08, 0x00] @ replicate 28 0"
  define lenenc_db :: bytes where "lenenc_db = [0x08, 0x00, 0x20, 0x00] @ replicate 28 0"
  define lenenc_plugin :: bytes where "lenenc_plugin = [0x00, 0x00, 0x28, 0x00] @ replicate 28 0"
  have len: "length nts = 32" "length lenenc_db = 32" "length lenenc_plugin = 32"
    by (simp_all add: nts_def lenenc_db_def lenenc_plugin_def)
  have caps: "le_int (take 4 nts) = 0x00080008" "le_int (take 4 lenenc_db) = 0x00200008"
    "le_int (take 4 lenenc_plugin) = 0x00280000"
    by (simp_all add: nts_def lenenc_db_def lenenc_plugin_def)
  have flags: "0x00080008 AND 0x00200000 = (0 :: int)" "0x00080008 AND 0x00000008 \<noteq> (0 :: int)"
    "0x00080008 AND 0x00080000 \<noteq> (0 :: int)"
    "0x00200008 AND 0x00200000 \<noteq> (0 :: int)" "0x00200008 AND 0x00000008 \<noteq> (0 :: int)"
    "0x00280000 AND 0x00200000 \<noteq> (0 :: int)" "0x00280000 AND 0x00000008 = (0 :: int)"
    "0x00280000 AND 0x00080000 \<noteq> (0 :: int)"
    by simp_all
  have z: "0 \<notin> set (ascii ''root'')" "0 \<notin> set (ascii ''hchdb'')" "0 \<notin> set (ascii ''native'')"
    by (simp_all add: ascii_Cons ascii_Nil)
  have v: "valid_utf8 (ascii ''root'')" "valid_utf8 (ascii ''hchdb'')" "valid_utf8 (ascii ''native'')"
    by (simp_all add: ascii_Cons ascii_Nil)
  have enc: "encode_length_encoded_int 2 = Inr [2]"
    by (simp add: encode_length_encoded_int_def pack_uint_def)
  have more: "le_int (take 4 (drop 4 nts)) = 0" "le_int (take (Suc 0) (drop 8 nts)) = 0"
    "le_int (take 4 (drop 4 lenenc_db)) = 0" "le_int (take (Suc 0) (drop 8 lenenc_db)) = 0"
    "le_int (take 4 (drop 4 lenenc_plugin)) = 0" "le_int (take (Suc 0) (drop 8 lenenc_plugin)) = 0"
    by (simp_all add: nts_def lenenc_db_def lenenc_plugin_def le_int_replicate_zero)
  have a: "(le_int (take 4 nts) AND 0x00200000 = 0 \<and> 0 \<notin> set [1, 2 :: byte] \<and> [1, 2, 0] = [1, 2 :: byte] @ [0])
       \<or> (le_int (take 4 nts) AND 0x00200000 \<noteq> 0 \<and> length [1, 2 :: byte] < 2 ^ 63
           \<and> encode_length_encoded_int (int (length [1, 2 :: byte])) = Inr [2] \<and> [1, 2, 0] = [2] @ [1, 2 :: byte])"
    by (simp add: caps)
  have b: "(le_int (take 4 lenenc_db) AND 0x00200000 = 0 \<and> 0 \<notin> set [1, 2 :: byte] \<and> [2, 1, 2] = [1, 2 :: byte] @ [0])
       \<or> (le_int (take 4 lenenc_db) AND 0x00200000 \<noteq> 0 \<and> length [1, 2 :: byte] < 2 ^ 63
           \<and> encode_length_encoded_int (int (length [1, 2 :: byte])) = Inr [2] \<and> [2, 1, 2] = [2] @ [1, 2 :: byte])"
    by (simp add: caps enc)
  have c: "(le_int (take 4 lenenc_plugin) AND 0x00200000 = 0 \<and> 0 \<notin> set [1, 2 :: byte] \<and> [2, 1, 2] = [1, 2 :: byte] @ [0])
       \<or> (le_int (take 4 lenenc_plugin) AND 0x00200000 \<noteq> 0 \<and> length [1, 2 :: byte] < 2 ^ 63
           \<and> encode_length_encoded_int (int (length [1, 2 :: byte])) = Inr [2] \<and> [2, 1, 2] = [2] @ [1, 2 :: byte])"
    by (simp add: caps enc)
  from unterminated_field_is_accepted [OF len(1) z v a, of 1] flags
  have A: "parse_handshake_response
          \<lparr>payload = nts @ ascii ''root'' @ 0 # [1, 2] @ 0 # ascii ''hchdb'' @ 0 # ascii ''native'',
           sequence_id = 1\<rparr>
        = Inr \<lparr>username = ascii ''root'', auth_data = [1, 2], database = ascii ''hchdb'',
               auth_plugin = ascii ''native'', capabilities = 0x00080008, max_packet_size = 0,
               charset = 0\<rparr>"
    by (simp add: Let_def caps more)
  from unterminated_field_is_accepted [OF len(2) z v b, of 1] flags
  have B: "parse_handshake_response
          \<lparr>payload = lenenc_db @ ascii ''root'' @ 0 # [2, 1, 2] @ ascii ''hchdb'', sequence_id = 1\<rparr>
        = Inr \<lparr>username = ascii ''root'', auth_data = [1, 2], database = ascii ''hchdb'',
               auth_plugin = [], capabilities = 0x00200008, max_packet_size = 0, charset = 0\<rparr>"
    by (simp add: Let_def caps more)
  from unterminated_field_is_accepted [OF len(3) z v c, of 1] flags
  have C: "parse_handshake_response
          \<lparr>payload = lenenc_plugin @ ascii ''root'' @ 0 # [2, 1, 2] @ ascii ''native'', sequence_id = 1\<rparr>
        = Inr \<lparr>username = ascii ''root'', auth_data = [1, 2], database = [],
               auth_plugin = ascii ''native'', capabilities = 0x00280000, max_packet_size = 0,
               charset = 0\<rparr>"
    by (simp add: Let_def caps more)
  from len caps flags enc A B C show ?thesis
    unfolding nts_def [symmetric] lenenc_db_def [symmetric] lenenc_plugin_def [symmetric] Let_def
    by simp
qed

subsection \<open>The handshake packet\<close>

text \<open>
  Claim C9. For every server version, every connection id that fits 32 bits and every
  plugin name, the handshake payload is the byte \<open>0x0A\<close>, the version and a zero byte,
  the connection id in four little-endian bytes, the first seed, the low capability
  half, character set, status, the high capability half, the seed length, ten zero
  bytes, the second seed, and last the plugin name and a zero byte. The capability word
  made of the two halves contains \<open>PROTOCOL_41\<close>, \<open>SECURE_CONNECTION\<close>,
  \<open>CONNECT_WITH_DB\<close> and \<open>PLUGIN_AUTH\<close>. A plugin name left out is
  \<open>mysql_native_password\<close>.
\<close>

theorem build_handshake_layout:
  assumes "0 \<le> cid" and "cid < 2 ^ 32"
  shows "build_handshake b (Some version) (Some cid) (Some plugin)
         = Inr (\<lparr>payload = [0x0A] @ version @ [0] @ le_bytes 4 cid @ ascii ''12345678'' @ [0]
                    @ le_bytes 2 capabilities_low @ [0x21] @ [0x02, 0x00]
                    @ le_bytes 2 capabilities_high @ [21] @ replicate 10 0
                    @ ascii ''901234567890'' @ [0] @ plugin @ [0],
                  sequence_id = counter b\<rparr>,
                b\<lparr>counter := (counter b + 1) mod 256\<rparr>)
       \<and> le_int (le_bytes 4 cid) = cid
       \<and> (let word = le_int (le_bytes 2 capabilities_low) OR push_bit 16 (le_int (le_bytes 2 capabilities_high))
          in word AND 0x0200 = 0x0200 \<and> word AND 0x8000 = 0x8000
             \<and> word AND 0x0008 = 0x0008 \<and> word AND 0x80000 = 0x80000)
       \<and> build_handshake b (Some version) (Some cid) None
         = build_handshake b (Some version) (Some cid) (Some (ascii ''mysql_native_password''))"
proof -
  from assms have "le_int (le_bytes 4 cid) = cid"
    by (intro le_int_le_bytes) simp_all
  moreover have "le_int (le_bytes 2 capabilities_low) = 0xFFFF" "le_int (le_bytes 2 capabilities_high) = 0x01FF"
    by (simp_all add: capability_halves le_bytes_numeral)
  moreover from assms have "pack_uint 4 cid = Inr (le_bytes 4 cid)"
    by (simp add: pack_uint_def)
  ultimately show ?thesis
    by (simp add: build_handshake_def next_sequence_id_def le_bytes_one le_bytes_numeral [of _ 2])
qed

text \<open>The theorem at the first connection of a server with the default version.\<close>

theorem build_handshake_layout_witness:
  "(0::int) \<le> 1 \<and> (1::int) < 2 ^ 32
   \<and> build_handshake new_PacketBuilder (Some (ascii ''8.0.0-hchdb'')) (Some 1) None
     = Inr (\<lparr>payload = [0x0A] @ ascii ''8.0.0-hchdb'' @ [0, 1, 0, 0, 0] @ ascii ''12345678''
                @ [0, 0xFF, 0xFF, 0x21, 0x02, 0x00, 0xFF, 0x01, 21] @ replicate 10 0
                @ ascii ''901234567890'' @ [0] @ ascii ''mysql_native_password'' @ [0],
              sequence_id = 0\<rparr>,
            \<lparr>counter = 1\<rparr>)"
proof -
  have h: "(0::int) \<le> 1" "(1::int) < 2 ^ 32"
    by simp_all
  from build_handshake_layout [OF h, of new_PacketBuilder "ascii ''8.0.0-hchdb''"
      "ascii ''mysql_native_password''"]
  have "build_handshake new_PacketBuilder (Some (ascii ''8.0.0-hchdb'')) (Some 1) None
     = Inr (\<lparr>payload = [0x0A] @ ascii ''8.0.0-hchdb'' @ [0] @ le_bytes 4 1 @ ascii ''12345678'' @ [0]
                    @ le_bytes 2 capabilities_low @ [0x21] @ [0x02, 0x00]
                    @ le_bytes 2 capabilities_high @ [21] @ replicate 10 0
                    @ ascii ''901234567890'' @ [0] @ ascii ''mysql_native_password'' @ [0],
              sequence_id = counter new_PacketBuilder\<rparr>,
            new_PacketBuilder\<lparr>counter := (counter new_PacketBuilder + 1) mod 256\<rparr>)"
    by simp
  with h show ?thesis
    by (simp add: new_PacketBuilder_def capability_halves le_bytes_numeral)
qed

section \<open>Properties of the protocol handler\<close>

lemma le_int_nonneg: "0 \<le> le_int bs"
  by (induction bs) simp_all

lemma le_int_append: "le_int (as @ bs) = le_int as + 256 ^ length as * le_int bs"
  by (induction as) (simp_all add: algebra_simps)

text \<open>
  Every packet that \<open>_read_packet\<close> returns has a payload of at least
  \<open>0x3030785C000000\<close> bytes, and the reader moves on in the stream.
\<close>

lemma read_packet_payload_length:
  assumes "read_packet stream = (Some p, rest)"
  shows "0x3030785C000000 \<le> length (payload p)" and "length rest < length stream"
proof -
  define n where "n = nat (le_int (take 3 (take 4 stream) @ esc ''00''))"
  from assms have long: "4 \<le> length stream"
    by (auto simp: read_packet_def split: if_splits)
  have "le_int (esc ''00'') = 0x3030785C"
    by (simp add: esc_def ascii_Cons ascii_Nil)
  with long have "le_int (take 3 (take 4 stream) @ esc ''00'')
      = le_int (take 3 stream) + 256 ^ 3 * 0x3030785C"
    by (simp add: le_int_append min_def)
  with le_int_nonneg [of "take 3 stream"] have big: "0x3030785C000000 \<le> n"
    by (simp add: n_def)
  with assms long have "payload p = take n (drop 4 stream)" and "n \<le> length (drop 4 stream)"
    and "rest = drop n (drop 4 stream)"
    by (auto simp: read_packet_def Let_def n_def split: if_splits)
  with big long show "0x3030785C000000 \<le> length (payload p)" and "length rest < length stream"
    by simp_all
qed

lemma emitted_fields [simp]:
  "counter (packet_builder (emitted d h)) = (counter (packet_builder h) + 1) mod 256"
  "sent (writer (emitted d h))
     = sent (writer h) @ [\<lparr>payload = d, sequence_id = counter (packet_builder h)\<rparr>]"
  "closing (writer (emitted d h)) = closing (writer h)"
  "reads (emitted d h) = reads h"
  "query_handler (emitted d h) = query_handler h"
  "handler_database (emitted d h) = handler_database h"
  "handler_username (emitted d h) = handler_username h"
  "handler_connection_id (emitted d h) = handler_connection_id h"
  by (simp_all add: emitted_def)

lemma emitted_in_range [simp]: "in_range (emitted d h)"
  by (simp add: in_range_def)

lemma pack_uint_ok: "0 \<le> v \<Longrightarrow> v < 256 ^ n \<Longrightarrow> pack_uint n v = Inr (le_bytes n v)"
  by (simp add: pack_uint_def)

lemma write_packet_ok:
  assumes "length (payload p) \<le> 0xffffff" and "0 \<le> sequence_id p" and "sequence_id p < 256"
  shows "write_packet p h = (None, h\<lparr>writer := (writer h)\<lparr>sent := sent (writer h) @ [p]\<rparr>\<rparr>)"
  using assms by (simp add: write_packet_def to_bytes_def pack_uint_def)

lemma send_raw_ok:
  assumes "in_range h" and "length data \<le> 0xffffff"
  shows "send_raw data h = (None, emitted data h)"
  using assms
  by (simp add: send_raw_def next_sequence_id_def write_packet_ok in_range_def emitted_def)

lemma send_built_ok:
  assumes "build (packet_builder h)
            = Inr (\<lparr>payload = data, sequence_id = counter (packet_builder h)\<rparr>,
                   (packet_builder h)\<lparr>counter := (counter (packet_builder h) + 1) mod 256\<rparr>)"
    and "in_range h" and "length data \<le> 0xffffff"
  shows "send_built build h = (None, emitted data h)"
  using assms
  by (simp add: send_built_def write_packet_ok in_range_def emitted_def)

lemma send_ok_0: "in_range h \<Longrightarrow> send_ok 0 h = (None, emitted [0, 0, 0, 2, 0, 0, 0] h)"
  unfolding send_ok_def
  by (rule send_built_ok)
     (simp_all add: build_ok_def encode_length_encoded_int_def pack_uint_def next_sequence_id_def
        le_bytes_numeral)

lemma send_eof_ok: "in_range h \<Longrightarrow> send_eof h = (None, emitted [0xFE, 0, 0, 2, 0] h)"
  unfolding send_eof_def
  by (rule send_built_ok)
     (simp_all add: build_eof_def pack_uint_def next_sequence_id_def le_bytes_numeral)

lemma ascii_length [simp]: "length (ascii s) = length s"
  by (simp add: ascii_def)

lemma send_error_ok:
  assumes "in_range h" and "0 \<le> code" and "code < 65536" and "length message \<le> 0xfffff0"
  shows "send_error code message h
         = (None, emitted ([0xFF] @ le_bytes 2 code @ ascii ''#'' @ ascii ''HY000'' @ message) h)"
  unfolding send_error_def
  by (rule send_built_ok) (use assms in \<open>simp_all add: build_error_def pack_uint_def next_sequence_id_def le_bytes_length\<close>)

lemma send_handshake_ok:
  assumes "in_range h" and "0 \<le> handler_connection_id h" and "handler_connection_id h < 2 ^ 32"
    and "length (server_version cfg) \<le> 0xffff00"
  shows "send_handshake cfg h
         = (None, emitted ([0x0A] @ server_version cfg @ [0] @ le_bytes 4 (handler_connection_id h)
                    @ ascii ''12345678'' @ [0] @ [0xFF, 0xFF, 0x21, 0x02, 0x00, 0xFF, 0x01, 21]
                    @ replicate 10 0 @ ascii ''901234567890'' @ [0]
                    @ ascii ''mysql_native_password'' @ [0]) h)"
  unfolding send_handshake_def
  by (rule send_built_ok)
     (use assms in \<open>simp_all add: build_handshake_def pack_uint_def next_sequence_id_def
        le_bytes_length capabilities_low_def capabilities_high_def le_bytes_numeral [of _ 2]
        le_bytes_numeral [of _ 65535] le_bytes_numeral [of _ 511] le_bytes_numeral [of _ 255] le_bytes_numeral [of _ 1]
        le_bytes_numeral [where k = "num.One"]\<close>)

text \<open>
  A client that closes before \<open>0x3030785C000004\<close> bytes have come gets no packet
  read: the first read returns \<open>None\<close>.
\<close>

lemma esc_00: "le_int (esc ''00'') = 0x3030785C"
  by (simp add: esc_def ascii_Cons ascii_Nil)

lemma read_packet_closed_early:
  assumes "length stream < 0x3030785C000004"
  shows "read_packet stream = (None, [])"
proof (cases "length stream < 4")
  case True
  then show ?thesis
    by (simp add: read_packet_def)
next
  case False
  define n where "n = nat (le_int (take 3 stream @ esc ''00''))"
  from False have "le_int (take 3 stream @ esc ''00'')
      = le_int (take 3 stream) + 256 ^ 3 * 0x3030785C"
    by (simp add: le_int_append min_def esc_00)
  with le_int_nonneg [of "take 3 stream"] have big: "0x3030785C000000 \<le> n"
    by (simp add: n_def)
  with assms False have "length (drop 4 stream) < n" and "0 < le_int (take 3 stream @ esc ''00'')"
    by (simp_all add: n_def)
  with False show ?thesis
    by (simp add: read_packet_def Let_def n_def [symmetric])
qed

lemma in_range_reads [simp]: "in_range (h\<lparr>reads := k\<rparr>) = in_range h"
  by (simp add: in_range_def)

lemma session_without_packet:
  assumes "read_packet stream = (None, rest)"
    and "in_range h" and "0 \<le> handler_connection_id h" and "handler_connection_id h < 2 ^ 32"
    and "length (server_version cfg) \<le> 0xffff00"
  shows "handle_connection cfg py stream h
         = (None,
            close_connection
              (emitted ([0xFF, 0x51, 0x04] @ ascii ''#HY000''
                         @ ascii ''Internal error: [1001] No authentication packet received'')
                ((emitted ([0x0A] @ server_version cfg @ [0] @ le_bytes 4 (handler_connection_id h)
                    @ ascii ''12345678'' @ [0] @ [0xFF, 0xFF, 0x21, 0x02, 0x00, 0xFF, 0x01, 21]
                    @ replicate 10 0 @ ascii ''901234567890'' @ [0]
                    @ ascii ''mysql_native_password'' @ [0]) h)\<lparr>reads := reads h + 1\<rparr>)))"
proof -
  have code: "(1105 :: byte) = 81"
    by simp
  from assms show ?thesis
    apply (simp add: handle_connection_def try_except_def and_then_def send_handshake_ok
        handle_authentication_def send_error_ok le_bytes_numeral code)
    apply (simp add: ascii_def)
    done
qed

lemma in_range_new_Handler: "in_range (new_Handler w cid)"
  by (simp add: in_range_def new_Handler_def new_PacketBuilder_def)

lemma new_Handler_fields [simp]:
  "handler_connection_id (new_Handler w cid) = cid"
  "counter (packet_builder (new_Handler w cid)) = 0"
  "writer (new_Handler w cid) = w"
  "reads (new_Handler w cid) = 0"
  "authenticated (new_Handler w cid) = False"
  by (simp_all add: new_Handler_def new_PacketBuilder_def)

lemma emitted_more [simp]:
  "authenticated (emitted d h) = authenticated h"
  "peername (writer (emitted d h)) = peername (writer h)"
  by (simp_all add: emitted_def)

lemma close_connection_fields [simp]:
  "closing (writer (close_connection h))"
  "sent (writer (close_connection h)) = sent (writer h)"
  "reads (close_connection h) = reads h"
  "authenticated (close_connection h) = authenticated h"
  "packet_builder (close_connection h) = packet_builder h"
  by (simp_all add: close_connection_def)

lemma lenenc_str_ascii:
  "lenenc_str (ascii ''information_schema'') = Inr (0x12 # ascii ''information_schema'')"
  "lenenc_str (ascii ''hchdb'') = Inr (0x05 # ascii ''hchdb'')"
  "lenenc_str (ascii ''test'') = Inr (0x04 # ascii ''test'')"
  by (simp_all add: lenenc_str_def bind_err_def bytes_of_int_def py_len_def cont_def ascii_Cons ascii_Nil)

lemma send_databases_result_ok:
  assumes "in_range h"
  shows "send_databases_result h
         = (None,
            emitted [0xFE, 0, 0, 2, 0]
             (emitted (0x04 # ascii ''test'')
               (emitted (0x05 # ascii ''hchdb'')
                 (emitted (0x12 # ascii ''information_schema'')
                   (emitted [0xFE, 0, 0, 2, 0]
                     (emitted (ascii ''def'' @ esc ''00'' @ ascii ''information_schema'' @ esc ''00''
                                @ ascii ''SCHEMATA'' @ esc ''00'' @ ascii ''SCHEMATA'' @ esc ''00''
                                @ ascii ''SCHEMA_NAME'' @ esc ''00'' @ ascii ''SCHEMA_NAME'' @ esc ''00''
                                @ field_tail)
                       (emitted (esc ''01'') h)))))))"
  using assms
  by (simp add: send_databases_result_def and_then_def send_raw_ok send_eof_ok lenenc_str_ascii
      esc_def field_tail_def)

subsection \<open>Authentication\<close>

text \<open>
  Claim C1 as stated fails in its third case. With the password \<open>secret\<close> configured for
  \<open>root\<close>, \<open>_authenticate_user\<close> accepts the empty response and the response \<open>DE AD\<close>
  alike: whether it accepts does not depend on \<open>auth_data\<close> matching anything.
\<close>

theorem authenticate_user_accepts_any_response:
  "(let cfg = \<lparr>server_version = ascii ''8.0.0-hchdb'', max_connections = 1000,
                users = [ascii ''root'' \<mapsto> Some (ascii ''secret'')]\<rparr>;
        attempt = (\<lambda>response. \<lparr>username = ascii ''root'', auth_data = response, database = [],
                     auth_plugin = ascii ''mysql_native_password'', capabilities = 0x0008820F,
                     max_packet_size = 16777216, charset = 33\<rparr>)
    in authenticate_user cfg (attempt []) \<and> authenticate_user cfg (attempt [0xDE, 0xAD]))"
  by (simp add: authenticate_user_def)

text \<open>
  Claim C1, as amended. \<open>_authenticate_user\<close> returns true exactly when the user name
  is a key of the configured users: false for an absent user, true for a user with an
  empty or missing password, and true as well for a user with a non-empty password,
  whatever \<open>auth_data\<close> holds. Its result does not change with \<open>auth_data\<close>.
\<close>

theorem authenticate_user_looks_up_the_user_only:
  "authenticate_user cfg info = (users cfg (username info) \<noteq> None)
   \<and> authenticate_user cfg (info\<lparr>auth_data := response\<rparr>) = authenticate_user cfg info"
  by (simp add: authenticate_user_def split: option.split)

subsection \<open>Failed authentication\<close>

text \<open>
  Claim C4 asks for the error packet 1045 when an unknown user tries to authenticate.
  The code on the bytes that such a client sends: the handshake response for the user
  \<open>nobody\<close>, as \<open>tools/client.py\<close> builds it, framed with sequence id 1.
  \<open>Packet.to_bytes\<close> gives these bytes and \<open>Packet.from_bytes\<close> reads the packet back
  from them; the parser finds the user \<open>nobody\<close> in it, whom \<open>_authenticate_user\<close>
  refuses. But \<open>_read_packet\<close> takes the length from seven bytes and asks for more
  payload than the client sends, so it returns no packet: the server writes the
  handshake and then the error packet 1105,
  \<open>Internal error: [1001] No authentication packet received\<close>, and closes. No packet
  1045 is written.
\<close>

theorem unknown_user_gets_internal_error:
  "(let cfg = \<lparr>server_version = ascii ''8.0.0-hchdb'', max_connections = 1000,
                users = [ascii ''root'' \<mapsto> Some []]\<rparr>;
        response = \<lparr>payload = [0x0F, 0x82, 0x08, 0x00, 0x00, 0x00, 0x00, 0x01, 0x21] @ replicate 23 0
                       @ ascii ''nobody'' @ [0, 0] @ ascii ''hchdb'' @ [0]
                       @ ascii ''mysql_native_password'' @ [0],
                    sequence_id = 1\<rparr>;
        wire = [0x44, 0x00, 0x00, 0x01] @ payload response;
        info = \<lparr>username = ascii ''nobody'', auth_data = [], database = ascii ''hchdb'',
                auth_plugin = ascii ''mysql_native_password'', capabilities = 0x0008820F,
                max_packet_size = 16777216, charset = 33\<rparr>
    in to_bytes response = Inr wire
     \<and> from_bytes wire = Inr response
     \<and> parse_handshake_response response = Inr info
     \<and> \<not> authenticate_user cfg info
     \<and> read_packet wire = (None, [])
     \<and> (let (r, h) = handle_connection cfg py wire
                        (new_Handler \<lparr>peername = (ascii ''127.0.0.1'', 50000), sent = [], closing = False\<rparr> 1)
        in r = None \<and> closing (writer h) \<and> reads h = 1 \<and> \<not> authenticated h
           \<and> sent (writer h)
               = [\<lparr>payload = [0x0A] @ ascii ''8.0.0-hchdb'' @ [0, 1, 0, 0, 0] @ ascii ''12345678''
                             @ [0, 0xFF, 0xFF, 0x21, 0x02, 0x00, 0xFF, 0x01, 21] @ replicate 10 0
                             @ ascii ''901234567890'' @ [0] @ ascii ''mysql_native_password'' @ [0],
                   sequence_id = 0\<rparr>,
                  \<lparr>payload = [0xFF, 0x51, 0x04] @ ascii ''#HY000''
                             @ ascii ''Internal error: [1001] No authentication packet received'',
                   sequence_id = 1\<rparr>]))"
proof -
  define cfg where "cfg = \<lparr>server_version = ascii ''8.0.0-hchdb'', max_connections = 1000,
                users = [ascii ''root'' \<mapsto> Some ([] :: str)]\<rparr>"
  define response where "response = \<lparr>payload = [0x0F, 0x82, 0x08, 0x00, 0x00, 0x00, 0x00, 0x01, 0x21] @ replicate 23 0
                       @ ascii ''nobody'' @ [0, 0] @ ascii ''hchdb'' @ [0]
                       @ ascii ''mysql_native_password'' @ [0],
                    sequence_id = 1\<rparr>"
  define wire where "wire = [0x44, 0x00, 0x00, 0x01] @ payload response"
  define info where "info = \<lparr>username = ascii ''nobody'', auth_data = [], database = ascii ''hchdb'',
                auth_plugin = ascii ''mysql_native_password'', capabilities = 0x0008820F,
                max_packet_size = 16777216, charset = 33\<rparr>"
  have framed: "to_bytes response = Inr wire"
    by (simp add: to_bytes_def pack_uint_def wire_def response_def le_bytes_numeral)
  have unframed: "from_bytes wire = Inr response"
    by (simp add: from_bytes_def bind_err_def unpack_uint_def wire_def response_def)
  have parsed: "parse_handshake_response response = Inr info"
    by (simp add: response_def info_def parse_handshake_response_def bind_err_def decode_utf8_def
        unpack_uint_def read_auth_data_def read_optional_nts_def ascii_Cons ascii_Nil)
  have unknown: "\<not> authenticate_user cfg info"
    by (simp add: authenticate_user_def cfg_def info_def ascii_Cons ascii_Nil)
  have short: "read_packet wire = (None, [])"
    by (rule read_packet_closed_early) (simp add: wire_def response_def)
  have session: "(let (r, h) = handle_connection cfg py wire
                        (new_Handler \<lparr>peername = (ascii ''127.0.0.1'', 50000), sent = [], closing = False\<rparr> 1)
        in r = None \<and> closing (writer h) \<and> reads h = 1 \<and> \<not> authenticated h
           \<and> sent (writer h)
               = [\<lparr>payload = [0x0A] @ ascii ''8.0.0-hchdb'' @ [0, 1, 0, 0, 0] @ ascii ''12345678''
                             @ [0, 0xFF, 0xFF, 0x21, 0x02, 0x00, 0xFF, 0x01, 21] @ replicate 10 0
                             @ ascii ''901234567890'' @ [0] @ ascii ''mysql_native_password'' @ [0],
                   sequence_id = 0\<rparr>,
                  \<lparr>payload = [0xFF, 0x51, 0x04] @ ascii ''#HY000''
                             @ ascii ''Internal error: [1001] No authentication packet received'',
                   sequence_id = 1\<rparr>])"
    by (simp add: session_without_packet [OF short] in_range_new_Handler cfg_def le_bytes_numeral)
  from framed unframed parsed unknown short session show ?thesis
    unfolding cfg_def [symmetric] response_def [symmetric] Let_def wire_def [symmetric] info_def [symmetric]
    by simp
qed

subsection \<open>\<open>COM_QUIT\<close>\<close>

text \<open>
  Claim C3 asks that a client that has authenticated and sends \<open>COM_QUIT\<close> gets no
  packet in answer and is disconnected. \<open>_process_command\<close> does write nothing for
  \<open>COM_QUIT\<close>. The code on the bytes of such a client: the handshake response for the
  configured user \<open>root\<close> with sequence id 1, which the parser reads and
  \<open>_authenticate_user\<close> accepts, and then the \<open>COM_QUIT\<close> packet with sequence id 0.
  \<open>_read_packet\<close> returns no packet from these bytes, so the client is never
  authenticated and the command is never looked at: the server writes the handshake and
  then the error packet 1105, \<open>Internal error: [1001] No authentication packet received\<close>,
  and closes.
\<close>

theorem quit_is_answered_with_an_internal_error:
  "process_command cfg py \<lparr>payload = 0x01 # body, sequence_id = i\<rparr> h0 = (None, h0)
   \<and> (let cfg0 = \<lparr>server_version = ascii ''8.0.0-hchdb'', max_connections = 1000,
                   users = [ascii ''root'' \<mapsto> Some []]\<rparr>;
           response = \<lparr>payload = [0x0F, 0x82, 0x08, 0x00, 0x00, 0x00, 0x00, 0x01, 0x21] @ replicate 23 0
                          @ ascii ''root'' @ [0, 0] @ ascii ''hchdb'' @ [0]
                          @ ascii ''mysql_native_password'' @ [0],
                       sequence_id = 1\<rparr>;
           quit = \<lparr>payload = [0x01], sequence_id = 0\<rparr>;
           wire = [0x42, 0x00, 0x00, 0x01] @ payload response @ [0x01, 0x00, 0x00, 0x00, 0x01];
           info = \<lparr>username = ascii ''root'', auth_data = [], database = ascii ''hchdb'',
                   auth_plugin = ascii ''mysql_native_password'', capabilities = 0x0008820F,
                   max_packet_size = 16777216, charset = 33\<rparr>
       in to_bytes response = Inr ([0x42, 0x00, 0x00, 0x01] @ payload response)
        \<and> to_bytes quit = Inr [0x01, 0x00, 0x00, 0x00, 0x01]
        \<and> parse_handshake_response response = Inr info
        \<and> authenticate_user cfg0 info
        \<and> read_packet wire = (None, [])
        \<and> (let (r, h) = handle_connection cfg0 py wire
                           (new_Handler \<lparr>peername = (ascii ''127.0.0.1'', 50000), sent = [], closing = False\<rparr> 1)
           in r = None \<and> closing (writer h) \<and> reads h = 1 \<and> \<not> authenticated h
              \<and> sent (writer h)
                  = [\<lparr>payload = [0x0A] @ ascii ''8.0.0-hchdb'' @ [0, 1, 0, 0, 0] @ ascii ''12345678''
                                @ [0, 0xFF, 0xFF, 0x21, 0x02, 0x00, 0xFF, 0x01, 21] @ replicate 10 0
                                @ ascii ''901234567890'' @ [0] @ ascii ''mysql_native_password'' @ [0],
                      sequence_id = 0\<rparr>,
                     \<lparr>payload = [0xFF, 0x51, 0x04] @ ascii ''#HY000''
                                @ ascii ''Internal error: [1001] No authentication packet received'',
                      sequence_id = 1\<rparr>]))"
proof -
  define cfg0 where "cfg0 = \<lparr>server_version = ascii ''8.0.0-hchdb'', max_connections = 1000,
                users = [ascii ''root'' \<mapsto> Some ([] :: str)]\<rparr>"
  define response where "response = \<lparr>payload = [0x0F, 0x82, 0x08, 0x00, 0x00, 0x00, 0x00, 0x01, 0x21] @ replicate 23 0
                       @ ascii ''root'' @ [0, 0] @ ascii ''hchdb'' @ [0]
                       @ ascii ''mysql_native_password'' @ [0],
                    sequence_id = 1\<rparr>"
  define quit where "quit = \<lparr>payload = [0x01], sequence_id = 0\<rparr>"
  define wire where "wire = [0x42, 0x00, 0x00, 0x01] @ payload response @ [0x01, 0x00, 0x00, 0x00, 0x01]"
  define info where "info = \<lparr>username = ascii ''root'', auth_data = [], database = ascii ''hchdb'',
                auth_plugin = ascii ''mysql_native_password'', capabilities = 0x0008820F,
                max_packet_size = 16777216, charset = 33\<rparr>"
  have no_answer: "process_command cfg py \<lparr>payload = 0x01 # body, sequence_id = i\<rparr> h0 = (None, h0)"
    by (simp add: process_command_def)
  have framed: "to_bytes response = Inr ([0x42, 0x00, 0x00, 0x01] @ payload response)"
    "to_bytes quit = Inr [0x01, 0x00, 0x00, 0x00, 0x01]"
    by (simp_all add: to_bytes_def pack_uint_def response_def quit_def le_bytes_numeral)
  have parsed: "parse_handshake_response response = Inr info"
    by (simp add: response_def info_def parse_handshake_response_def bind_err_def decode_utf8_def
        unpack_uint_def read_auth_data_def read_optional_nts_def ascii_Cons ascii_Nil)
  have known: "authenticate_user cfg0 info"
    by (simp add: authenticate_user_def cfg0_def info_def)
  have short: "read_packet wire = (None, [])"
    by (rule read_packet_closed_early) (simp add: wire_def response_def)
  have session: "(let (r, h) = handle_connection cfg0 py wire
                        (new_Handler \<lparr>peername = (ascii ''127.0.0.1'', 50000), sent = [], closing = False\<rparr> 1)
        in r = None \<and> closing (writer h) \<and> reads h = 1 \<and> \<not> authenticated h
           \<and> sent (writer h)
               = [\<lparr>payload = [0x0A] @ ascii ''8.0.0-hchdb'' @ [0, 1, 0, 0, 0] @ ascii ''12345678''
                             @ [0, 0xFF, 0xFF, 0x21, 0x02, 0x00, 0xFF, 0x01, 21] @ replicate 10 0
                             @ ascii ''901234567890'' @ [0] @ ascii ''mysql_native_password'' @ [0],
                   sequence_id = 0\<rparr>,
                  \<lparr>payload = [0xFF, 0x51, 0x04] @ ascii ''#HY000''
                             @ ascii ''Internal error: [1001] No authentication packet received'',
                   sequence_id = 1\<rparr>])"
    by (simp add: session_without_packet [OF short] in_range_new_Handler cfg0_def le_bytes_numeral)
  from no_answer framed parsed known short session show ?thesis
    unfolding cfg0_def [symmetric] response_def [symmetric] quit_def [symmetric] Let_def
      wire_def [symmetric] info_def [symmetric]
    by simp
qed

subsection \<open>\<open>SHOW DATABASES\<close>\<close>

text \<open>
  Claim C5 asks that the answer to \<open>SHOW DATABASES\<close> has seven packets, the first of
  which encodes the length-encoded column count 1. \<open>_send_databases_result\<close>, run with
  the builder's counter at any byte value \<open>c\<close>, writes seven packets with the sequence
  ids \<open>c\<close> to \<open>c + 6\<close> modulo 256, in the order column count, column definition, EOF,
  three rows, EOF, and the rows are the length-prefixed names; but the payload of the
  first packet is the four characters backslash, x, 0, 1, which read as a
  length-encoded integer give 92, whereas the length-encoded integer 1 is the single
  byte \<open>0x01\<close>. The column definition holds the same escapes as text. And on the bytes
  of a client that logs in as \<open>root\<close> and sends the statement, \<open>_read_packet\<close> returns
  no packet: the server writes the handshake and the error packet 1105 and none of the
  seven packets.
\<close>

theorem send_databases_result_column_count_is_escaped_text:
  "(in_range h \<longrightarrow>
      (let (r, h') = send_databases_result h;
           c = counter (packet_builder h);
           answer = drop (length (sent (writer h))) (sent (writer h'))
       in r = None
          \<and> map payload answer
              = [[0x5C, 0x78, 0x30, 0x31],
                 ascii ''def'' @ esc ''00'' @ ascii ''information_schema'' @ esc ''00'' @ ascii ''SCHEMATA''
                   @ esc ''00'' @ ascii ''SCHEMATA'' @ esc ''00'' @ ascii ''SCHEMA_NAME'' @ esc ''00''
                   @ ascii ''SCHEMA_NAME'' @ esc ''00'' @ field_tail,
                 [0xFE, 0, 0, 2, 0],
                 0x12 # ascii ''information_schema'',
                 0x05 # ascii ''hchdb'',
                 0x04 # ascii ''test'',
                 [0xFE, 0, 0, 2, 0]]
          \<and> map sequence_id answer = map (\<lambda>k. (c + k) mod 256) [0, 1, 2, 3, 4, 5, 6]))
   \<and> decode_length_encoded_int [0x5C, 0x78, 0x30, 0x31] = Inr (92, [0x78, 0x30, 0x31])
   \<and> encode_length_encoded_int 1 = Inr [0x01]
   \<and> (let cfg0 = \<lparr>server_version = ascii ''8.0.0-hchdb'', max_connections = 1000,
                   users = [ascii ''root'' \<mapsto> Some []]\<rparr>;
           response = \<lparr>payload = [0x0F, 0x82, 0x08, 0x00, 0x00, 0x00, 0x00, 0x01, 0x21] @ replicate 23 0
                          @ ascii ''root'' @ [0, 0] @ ascii ''hchdb'' @ [0]
                          @ ascii ''mysql_native_password'' @ [0],
                       sequence_id = 1\<rparr>;
           query = \<lparr>payload = 0x03 # ascii ''SHOW DATABASES'', sequence_id = 0\<rparr>;
           wire = [0x42, 0x00, 0x00, 0x01] @ payload response @ [0x0F, 0x00, 0x00, 0x00] @ payload query
       in to_bytes response = Inr ([0x42, 0x00, 0x00, 0x01] @ payload response)
        \<and> to_bytes query = Inr ([0x0F, 0x00, 0x00, 0x00] @ payload query)
        \<and> parse_query query = Inr (ascii ''SHOW DATABASES'')
        \<and> read_packet wire = (None, [])
        \<and> (let (r, h) = handle_connection cfg0 py wire
                           (new_Handler \<lparr>peername = (ascii ''127.0.0.1'', 50000), sent = [], closing = False\<rparr> 1)
           in r = None \<and> closing (writer h) \<and> reads h = 1
              \<and> sent (writer h)
                  = [\<lparr>payload = [0x0A] @ ascii ''8.0.0-hchdb'' @ [0, 1, 0, 0, 0] @ ascii ''12345678''
                                @ [0, 0xFF, 0xFF, 0x21, 0x02, 0x00, 0xFF, 0x01, 21] @ replicate 10 0
                                @ ascii ''901234567890'' @ [0] @ ascii ''mysql_native_password'' @ [0],
                      sequence_id = 0\<rparr>,
                     \<lparr>payload = [0xFF, 0x51, 0x04] @ ascii ''#HY000''
                                @ ascii ''Internal error: [1001] No authentication packet received'',
                      sequence_id = 1\<rparr>]))"
proof -
  define cfg0 where "cfg0 = \<lparr>server_version = ascii ''8.0.0-hchdb'', max_connections = 1000,
                users = [ascii ''root'' \<mapsto> Some ([] :: str)]\<rparr>"
  define response where "response = \<lparr>payload = [0x0F, 0x82, 0x08, 0x00, 0x00, 0x00, 0x00, 0x01, 0x21] @ replicate 23 0
                       @ ascii ''root'' @ [0, 0] @ ascii ''hchdb'' @ [0]
                       @ ascii ''mysql_native_password'' @ [0],
                    sequence_id = 1\<rparr>"
  define query where "query = \<lparr>payload = 0x03 # ascii ''SHOW DATABASES'', sequence_id = 0\<rparr>"
  define wire where "wire = [0x42, 0x00, 0x00, 0x01] @ payload response @ [0x0F, 0x00, 0x00, 0x00] @ payload query"
  have answer: "(let (r, h') = send_databases_result h;
           c = counter (packet_builder h);
           answer = drop (length (sent (writer h))) (sent (writer h'))
       in r = None
          \<and> map payload answer
              = [[0x5C, 0x78, 0x30, 0x31],
                 ascii ''def'' @ esc ''00'' @ ascii ''information_schema'' @ esc ''00'' @ ascii ''SCHEMATA''
                   @ esc ''00'' @ ascii ''SCHEMATA'' @ esc ''00'' @ ascii ''SCHEMA_NAME'' @ esc ''00''
                   @ ascii ''SCHEMA_NAME'' @ esc ''00'' @ field_tail,
                 [0xFE, 0, 0, 2, 0],
                 0x12 # ascii ''information_schema'',
                 0x05 # ascii ''hchdb'',
                 0x04 # ascii ''test'',
                 [0xFE, 0, 0, 2, 0]]
          \<and> map sequence_id answer = map (\<lambda>k. (c + k) mod 256) [0, 1, 2, 3, 4, 5, 6])"
    if "in_range h"
  proof -
    from that have "counter (packet_builder h) mod 256 = counter (packet_builder h)"
      by (simp add: in_range_def)
    moreover have "esc ''01'' = [0x5C, 0x78, 0x30, 0x31]"
      by (simp add: esc_def ascii_Cons ascii_Nil)
    ultimately show ?thesis
      using that by (simp add: send_databases_result_ok mod_simps Let_def add.commute)
  qed
  have lei: "decode_length_encoded_int [0x5C, 0x78, 0x30, 0x31] = Inr (92, [0x78, 0x30, 0x31])"
    "encode_length_encoded_int 1 = Inr [0x01]"
    by (simp_all add: decode_length_encoded_int_def encode_length_encoded_int_def pack_uint_def)
  have framed: "to_bytes response = Inr ([0x42, 0x00, 0x00, 0x01] @ payload response)"
    "to_bytes query = Inr ([0x0F, 0x00, 0x00, 0x00] @ payload query)"
    by (simp_all add: to_bytes_def pack_uint_def response_def query_def le_bytes_numeral)
  have parsed: "parse_query query = Inr (ascii ''SHOW DATABASES'')"
    by (simp add: parse_query_def query_def decode_utf8_def ascii_Cons ascii_Nil)
  have short: "read_packet wire = (None, [])"
    by (rule read_packet_closed_early) (simp add: wire_def response_def query_def)
  have session: "(let (r, h) = handle_connection cfg0 py wire
                        (new_Handler \<lparr>peername = (ascii ''127.0.0.1'', 50000), sent = [], closing = False\<rparr> 1)
        in r = None \<and> closing (writer h) \<and> reads h = 1
           \<and> sent (writer h)
               = [\<lparr>payload = [0x0A] @ ascii ''8.0.0-hchdb'' @ [0, 1, 0, 0, 0] @ ascii ''12345678''
                             @ [0, 0xFF, 0xFF, 0x21, 0x02, 0x00, 0xFF, 0x01, 21] @ replicate 10 0
                             @ ascii ''901234567890'' @ [0] @ ascii ''mysql_native_password'' @ [0],
                   sequence_id = 0\<rparr>,
                  \<lparr>payload = [0xFF, 0x51, 0x04] @ ascii ''#HY000''
                             @ ascii ''Internal error: [1001] No authentication packet received'',
                   sequence_id = 1\<rparr>])"
    by (simp add: session_without_packet [OF short] in_range_new_Handler cfg0_def le_bytes_numeral)
  from answer lei framed parsed short session show ?thesis
    unfolding cfg0_def [symmetric] response_def [symmetric] query_def [symmetric] Let_def
      wire_def [symmetric]
    by blast
qed

text \<open>The first part of the theorem at a new handler: the sequence ids are 0 to 6.\<close>

theorem send_databases_result_column_count_is_escaped_text_witness:
  "(let h = new_Handler \<lparr>peername = (ascii ''127.0.0.1'', 50000), sent = [], closing = False\<rparr> 1;
        (r, h') = send_databases_result h
    in in_range h \<and> r = None
       \<and> sent (writer h')
           = [\<lparr>payload = [0x5C, 0x78, 0x30, 0x31], sequence_id = 0\<rparr>,
              \<lparr>payload = ascii ''def'' @ esc ''00'' @ ascii ''information_schema'' @ esc ''00''
                   @ ascii ''SCHEMATA'' @ esc ''00'' @ ascii ''SCHEMATA'' @ esc ''00''
                   @ ascii ''SCHEMA_NAME'' @ esc ''00'' @ ascii ''SCHEMA_NAME'' @ esc ''00'' @ field_tail,
                sequence_id = 1\<rparr>,
              \<lparr>payload = [0xFE, 0, 0, 2, 0], sequence_id = 2\<rparr>,
              \<lparr>payload = 0x12 # ascii ''information_schema'', sequence_id = 3\<rparr>,
              \<lparr>payload = 0x05 # ascii ''hchdb'', sequence_id = 4\<rparr>,
              \<lparr>payload = 0x04 # ascii ''test'', sequence_id = 5\<rparr>,
              \<lparr>payload = [0xFE, 0, 0, 2, 0], sequence_id = 6\<rparr>])"
proof -
  define h where "h = new_Handler \<lparr>peername = (ascii ''127.0.0.1'', 50000 :: int), sent = [], closing = False\<rparr> 1"
  have r: "in_range h"
    by (simp add: h_def in_range_new_Handler)
  have start: "sent (writer h) = []" "counter (packet_builder h) = 0"
    by (simp_all add: h_def)
  obtain r' h' where run: "send_databases_result h = (r', h')"
    by (cases "send_databases_result h")
  from send_databases_result_column_count_is_escaped_text [of h] r run start
  have "r' = None" and p: "map payload (sent (writer h'))
              = [[0x5C, 0x78, 0x30, 0x31],
                 ascii ''def'' @ esc ''00'' @ ascii ''information_schema'' @ esc ''00'' @ ascii ''SCHEMATA''
                   @ esc ''00'' @ ascii ''SCHEMATA'' @ esc ''00'' @ ascii ''SCHEMA_NAME'' @ esc ''00''
                   @ ascii ''SCHEMA_NAME'' @ esc ''00'' @ field_tail,
                 [0xFE, 0, 0, 2, 0],
                 0x12 # ascii ''information_schema'',
                 0x05 # ascii ''hchdb'',
                 0x04 # ascii ''test'',
                 [0xFE, 0, 0, 2, 0]]"
    and s: "map sequence_id (sent (writer h')) = [0, 1, 2, 3, 4, 5, 6]"
    by (simp_all add: Let_def)
  from p s have "sent (writer h')
           = [\<lparr>payload = [0x5C, 0x78, 0x30, 0x31], sequence_id = 0\<rparr>,
              \<lparr>payload = ascii ''def'' @ esc ''00'' @ ascii ''information_schema'' @ esc ''00''
                   @ ascii ''SCHEMATA'' @ esc ''00'' @ ascii ''SCHEMATA'' @ esc ''00''
                   @ ascii ''SCHEMA_NAME'' @ esc ''00'' @ ascii ''SCHEMA_NAME'' @ esc ''00'' @ field_tail,
                sequence_id = 1\<rparr>,
              \<lparr>payload = [0xFE, 0, 0, 2, 0], sequence_id = 2\<rparr>,
              \<lparr>payload = 0x12 # ascii ''information_schema'', sequence_id = 3\<rparr>,
              \<lparr>payload = 0x05 # ascii ''hchdb'', sequence_id = 4\<rparr>,
              \<lparr>payload = 0x04 # ascii ''test'', sequence_id = 5\<rparr>,
              \<lparr>payload = [0xFE, 0, 0, 2, 0], sequence_id = 6\<rparr>]"
    by (auto simp: map_eq_Cons_conv)
  with r \<open>r' = None\<close> run show ?thesis
    unfolding h_def [symmetric] Let_def by simp
qed

section \<open>Properties of the connection manager\<close>

lemma handle_new_connection_rejects:
  assumes "limit m \<le> connection_count m"
  shows "handle_new_connection w t1 t2 m
         = (m\<lparr>rejected_connections := rejected_connections m + 1\<rparr>, w\<lparr>closing := True\<rparr>, None)"
  using assms by (simp add: handle_new_connection_def)

lemma handle_new_connection_within_limit:
  assumes "within_limit m"
  shows "within_limit (fst (handle_new_connection w t1 t2 m))"
proof (cases "limit m \<le> connection_count m")
  case True
  with assms show ?thesis
    by (simp add: handle_new_connection_rejects within_limit_def connection_count_def)
next
  case False
  from assms have fin: "finite (dom (connections m))"
    by (simp add: within_limit_def)
  have "card (insert (next_connection_id m) (dom (connections m))) \<le> Suc (card (dom (connections m)))"
    using fin by (simp add: card_insert_if)
  with False fin show ?thesis
    by (simp add: handle_new_connection_def within_limit_def connection_count_def Let_def)
qed

lemma forget_within_limit:
  assumes "within_limit m"
  shows "within_limit (forget_connection cid m)" and "within_limit (forget_handler cid m)"
proof -
  from assms have fin: "finite (dom (connections m))"
    by (simp add: within_limit_def)
  then have "card (dom (connections m) - {cid}) \<le> card (dom (connections m))"
    by (simp add: card_Diff1_le)
  with assms fin show "within_limit (forget_connection cid m)"
    by (simp add: forget_connection_def within_limit_def connection_count_def)
  from assms show "within_limit (forget_handler cid m)"
    by (simp add: forget_handler_def within_limit_def connection_count_def)
qed

lemma cleanup_connection_within_limit:
  "within_limit m \<Longrightarrow> within_limit (cleanup_connection cid m)"
  by (simp add: cleanup_connection_def forget_within_limit)

lemma update_within_limit:
  assumes "within_limit m"
  shows "within_limit (update_connection_activity cid now qc bs br m)"
    and "within_limit (update_connection_auth cid name db m)"
  using assms
  by (auto simp: update_connection_activity_def update_connection_auth_def within_limit_def
      connection_count_def insert_absorb domI split: option.splits)

lemma manager_step_within_limit: "within_limit m \<Longrightarrow> within_limit (manager_step m c)"
  by (cases c)
     (simp_all add: handle_new_connection_within_limit forget_within_limit update_within_limit)

lemma manager_step_limit: "limit (manager_step m c) = limit m"
  by (cases c)
     (simp_all add: handle_new_connection_def forget_connection_def forget_handler_def Let_def
        update_connection_activity_def update_connection_auth_def split: option.splits)

lemma manager_run_within_limit:
  "within_limit m \<Longrightarrow> within_limit (manager_run m cs) \<and> limit (manager_run m cs) = limit m"
  by (induction cs arbitrary: m) (simp_all add: manager_step_within_limit manager_step_limit)

lemma new_ConnectionManager_within_limit:
  "0 \<le> max_connections cfg \<Longrightarrow> within_limit (new_ConnectionManager cfg)"
  by (simp add: within_limit_def new_ConnectionManager_def connection_count_def)

text \<open>
  Claim C8. A call of \<open>handle_new_connection\<close> when the number of tracked connections
  has reached the limit closes the socket, writes nothing to it and starts no session
  (so no handshake is sent), adds one to the rejected counter and leaves the
  connections and the next connection id as they were. Consequently, for a limit that
  is not negative, the number of tracked connections never exceeds it, whatever calls
  reach the manager.
\<close>

theorem admission_cap:
  "(limit m \<le> connection_count m \<longrightarrow>
      (let (m', w', task) = handle_new_connection w t1 t2 m
       in closing w' \<and> sent w' = sent w \<and> task = None
          \<and> rejected_connections m' = rejected_connections m + 1
          \<and> connections m' = connections m
          \<and> next_connection_id m' = next_connection_id m))
   \<and> (0 \<le> max_connections cfg \<longrightarrow>
        connection_count (manager_run (new_ConnectionManager cfg) calls) \<le> max_connections cfg)"
proof (intro conjI impI)
  assume "limit m \<le> connection_count m"
  then show "let (m', w', task) = handle_new_connection w t1 t2 m
       in closing w' \<and> sent w' = sent w \<and> task = None
          \<and> rejected_connections m' = rejected_connections m + 1
          \<and> connections m' = connections m
          \<and> next_connection_id m' = next_connection_id m"
    by (simp add: handle_new_connection_rejects)
next
  assume "0 \<le> max_connections cfg"
  then have "within_limit (new_ConnectionManager cfg)"
    by (rule new_ConnectionManager_within_limit)
  then have "within_limit (manager_run (new_ConnectionManager cfg) calls)"
    and "limit (manager_run (new_ConnectionManager cfg) calls) = limit (new_ConnectionManager cfg)"
    using manager_run_within_limit by blast+
  then show "connection_count (manager_run (new_ConnectionManager cfg) calls) \<le> max_connections cfg"
    by (simp add: within_limit_def new_ConnectionManager_def)
qed

text \<open>The theorem with limit 1: the first socket is admitted, the second is rejected.\<close>

theorem admission_cap_witness:
  "(let cfg = \<lparr>server_version = ascii ''8.0.0-hchdb'', max_connections = 1, users = Map.empty\<rparr>;
        w = \<lparr>peername = (ascii ''127.0.0.1'', 50000), sent = [], closing = False\<rparr>;
        m1 = manager_run (new_ConnectionManager cfg) [NewConnection w 10 10]
    in limit m1 \<le> connection_count m1 \<and> 0 \<le> max_connections cfg
       \<and> (let (m', w', task) = handle_new_connection w 20 20 m1
          in closing w' \<and> sent w' = [] \<and> task = None \<and> rejected_connections m' = 1
             \<and> connections m' = connections m1 \<and> next_connection_id m' = 2)
       \<and> connection_count (manager_run (new_ConnectionManager cfg)
             [NewConnection w 10 10, NewConnection w 20 20]) \<le> 1)"
proof -
  define cfg where "cfg = \<lparr>server_version = ascii ''8.0.0-hchdb'', max_connections = 1, users = Map.empty\<rparr>"
  define w where "w = \<lparr>peername = (ascii ''127.0.0.1'', 50000 :: int), sent = [], closing = False\<rparr>"
  define m1 where "m1 = manager_run (new_ConnectionManager cfg) [NewConnection w 10 10]"
  have full: "limit m1 \<le> connection_count m1"
    by (simp add: m1_def cfg_def new_ConnectionManager_def handle_new_connection_def
        connection_count_def Let_def)
  have pos: "0 \<le> max_connections cfg"
    by (simp add: cfg_def)
  have before: "rejected_connections m1 = 0" "next_connection_id m1 = 2" "sent w = []"
    by (simp_all add: m1_def cfg_def w_def new_ConnectionManager_def handle_new_connection_def
        connection_count_def Let_def)
  from admission_cap [of m1 w 20 20 cfg "[NewConnection w 10 10, NewConnection w 20 20]"] full pos
  have a: "(let (m', w', task) = handle_new_connection w 20 20 m1
       in closing w' \<and> sent w' = sent w \<and> task = None
          \<and> rejected_connections m' = rejected_connections m1 + 1
          \<and> connections m' = connections m1
          \<and> next_connection_id m' = next_connection_id m1)"
    and b: "connection_count (manager_run (new_ConnectionManager cfg)
             [NewConnection w 10 10, NewConnection w 20 20]) \<le> max_connections cfg"
    by blast+
  from a before have a': "(let (m', w', task) = handle_new_connection w 20 20 m1
          in closing w' \<and> sent w' = [] \<and> task = None \<and> rejected_connections m' = 1
             \<and> connections m' = connections m1 \<and> next_connection_id m' = 2)"
    by (simp add: case_prod_beta Let_def)
  from full pos a' b show ?thesis
    unfolding Let_def cfg_def [symmetric] w_def [symmetric] m1_def [symmetric]
    by (simp add: cfg_def)
qed

end
